theory Spec2Isabelle
  imports Main
begin

section \<open>Go strings\<close>

text \<open>
  A Go string is a sequence of bytes: \<^verbatim>\<open>len\<close> counts bytes and \<^verbatim>\<open>s[:24]\<close> slices
  bytes, so strings are modelled as \<^typ>\<open>string\<close> (a list of 8-bit characters).
  \<^verbatim>\<open>strings.ToLower\<close> is the one library function the provider applies to names and
  sizes.  It has a fast path for pure ASCII input and otherwise maps
  \<^verbatim>\<open>unicode.ToLower\<close> over the runes of the string, where a byte that does not start
  a valid UTF-8 sequence is read as the rune U+FFFD and written back as the three bytes
  EF BF BD.  The Unicode case table for runes above U+007F is a parameter of the model.
\<close>

type_synonym rune = nat
type_synonym casetable = "rune \<Rightarrow> rune"

definition RuneError :: rune where
  "RuneError = 0xFFFD"

definition cont_byte :: "nat \<Rightarrow> bool" where
  "cont_byte b = (0x80 \<le> b \<and> b \<le> 0xBF)"

text \<open>\<^verbatim>\<open>utf8.DecodeRuneInString\<close>: the rune at the front of a byte sequence and its width.\<close>

definition DecodeRune1 :: "nat \<Rightarrow> nat list \<Rightarrow> rune \<times> nat" where
  "DecodeRune1 b0 bs =
    (if b0 < 0x80 then (b0, 1)
     else if 0xC2 \<le> b0 \<and> b0 \<le> 0xDF then
       (case bs of
          b1 # _ \<Rightarrow>
            if cont_byte b1 then ((b0 mod 0x20) * 0x40 + b1 mod 0x40, 2) else (RuneError, 1)
        | _ \<Rightarrow> (RuneError, 1))
     else if 0xE0 \<le> b0 \<and> b0 \<le> 0xEF then
       (case bs of
          b1 # b2 # _ \<Rightarrow>
            if (if b0 = 0xE0 then 0xA0 else 0x80) \<le> b1
               \<and> b1 \<le> (if b0 = 0xED then 0x9F else 0xBF) \<and> cont_byte b2
            then ((b0 mod 0x10) * 0x1000 + (b1 mod 0x40) * 0x40 + b2 mod 0x40, 3)
            else (RuneError, 1)
        | _ \<Rightarrow> (RuneError, 1))
     else if 0xF0 \<le> b0 \<and> b0 \<le> 0xF4 then
       (case bs of
          b1 # b2 # b3 # _ \<Rightarrow>
            if (if b0 = 0xF0 then 0x90 else 0x80) \<le> b1
               \<and> b1 \<le> (if b0 = 0xF4 then 0x8F else 0xBF) \<and> cont_byte b2 \<and> cont_byte b3
            then ((b0 mod 0x08) * 0x40000 + (b1 mod 0x40) * 0x1000
                    + (b2 mod 0x40) * 0x40 + b3 mod 0x40, 4)
            else (RuneError, 1)
        | _ \<Rightarrow> (RuneError, 1))
     else (RuneError, 1))"

definition DecodeRune :: "nat list \<Rightarrow> rune \<times> nat" where
  "DecodeRune s = (case s of [] \<Rightarrow> (RuneError, 0) | b0 # bs \<Rightarrow> DecodeRune1 b0 bs)"

text \<open>\<^verbatim>\<open>utf8.AppendRune\<close>: surrogates and values above U+10FFFF are written as U+FFFD.\<close>

definition EncodeRune :: "rune \<Rightarrow> nat list" where
  "EncodeRune r =
    (if r \<le> 0x7F then [r]
     else if r \<le> 0x7FF then [0xC0 + r div 0x40, 0x80 + r mod 0x40]
     else if r > 0x10FFFF \<or> (0xD800 \<le> r \<and> r \<le> 0xDFFF) then [0xEF, 0xBF, 0xBD]
     else if r \<le> 0xFFFF then
       [0xE0 + r div 0x1000, 0x80 + (r div 0x40) mod 0x40, 0x80 + r mod 0x40]
     else [0xF0 + r div 0x40000, 0x80 + (r div 0x1000) mod 0x40,
           0x80 + (r div 0x40) mod 0x40, 0x80 + r mod 0x40])"

text \<open>The runes a \<^verbatim>\<open>for _, c := range s\<close> loop visits.\<close>

fun runes :: "nat list \<Rightarrow> rune list" where
  "runes [] = []"
| "runes (b # bs) =
     fst (DecodeRune (b # bs)) # runes (drop (snd (DecodeRune (b # bs)) - 1) bs)"

text \<open>\<^verbatim>\<open>strings.Map\<close> for a mapping that never returns a negative rune.\<close>

definition Map_runes :: "(rune \<Rightarrow> rune) \<Rightarrow> nat list \<Rightarrow> nat list" where
  "Map_runes mapping bs = concat (map (\<lambda>c. EncodeRune (mapping c)) (runes bs))"

definition unicode_ToLower :: "casetable \<Rightarrow> rune \<Rightarrow> rune" where
  "unicode_ToLower lt r =
    (if r \<le> 0x7F then (if 0x41 \<le> r \<and> r \<le> 0x5A then r + 0x20 else r) else lt r)"

definition ToLower_bytes :: "casetable \<Rightarrow> nat list \<Rightarrow> nat list" where
  "ToLower_bytes lt bs =
    (if list_all (\<lambda>b. b < 0x80) bs
     then map (\<lambda>b. if 0x41 \<le> b \<and> b \<le> 0x5A then b + 0x20 else b) bs
     else Map_runes (unicode_ToLower lt) bs)"

definition ToLower :: "casetable \<Rightarrow> string \<Rightarrow> string" where
  "ToLower lt s = map char_of (ToLower_bytes lt (map of_char s))"

text \<open>
  The case table of the Latin-1 block (U+0080 to U+00FF), where the capital letters
  U+00C0 to U+00DE other than the multiplication sign U+00D7 have their small letter 32
  places up; runes outside the block are left as they are, which is what Unicode
  prescribes for every rune without a case mapping, U+FFFD among them.
\<close>

definition latin1_table :: casetable where
  "latin1_table r =
    (if (0xC0 \<le> r \<and> r \<le> 0xD6) \<or> (0xD8 \<le> r \<and> r \<le> 0xDE) then r + 0x20 else r)"

section \<open>Naming and size normalization\<close>

text \<open>
  The generic size classes of \<^verbatim>\<open>InstanceResource.Create\<close>, one switch per backend.
  An empty size is read as \<^verbatim>\<open>small\<close>; the switch compares the lower-cased size; any
  other value is passed to the backend as it is.  The concrete identifiers are the
  values of the SDK constants as the README lists them.
\<close>

definition instanceType_aws :: "casetable \<Rightarrow> string \<Rightarrow> string" where
  "instanceType_aws lt sz =
    (let size = (if sz = '''' then ''small'' else sz); l = ToLower lt size in
     if l = ''small'' then ''t3.small''
     else if l = ''medium'' then ''t3.medium''
     else if l = ''large'' then ''t3.large''
     else size)"

definition vmSize_azure :: "casetable \<Rightarrow> string \<Rightarrow> string" where
  "vmSize_azure lt sz =
    (let size = (if sz = '''' then ''small'' else sz); l = ToLower lt size in
     if l = ''small'' then ''Standard_B1s''
     else if l = ''medium'' then ''Standard_B2s''
     else if l = ''large'' then ''Standard_B4ms''
     else size)"

definition machineType_gcp :: "casetable \<Rightarrow> string \<Rightarrow> string" where
  "machineType_gcp lt sz =
    (let size = (if sz = '''' then ''small'' else sz); l = ToLower lt size in
     if l = ''small'' then ''e2-small''
     else if l = ''medium'' then ''e2-medium''
     else if l = ''large'' then ''e2-standard-4''
     else size)"

text \<open>
  The storage-account name of the Azure branches of \<^verbatim>\<open>BucketResource.Create\<close> and
  \<^verbatim>\<open>FunctionResource.Create\<close>: lower-cased, then cut to its first 24 bytes.
\<close>

definition acctName :: "casetable \<Rightarrow> string \<Rightarrow> string" where
  "acctName lt name =
    (let a = ToLower lt name in if length a > 24 then take 24 a else a)"

text \<open>
  The predicates and the byte-wise lower-casing used to state facts about ASCII names.
\<close>

definition is_ascii :: "string \<Rightarrow> bool" where
  "is_ascii s = list_all (\<lambda>c. (of_char c :: nat) < 0x80) s"

definition lower_char :: "char \<Rightarrow> char" where
  "lower_char c =
    char_of (if 0x41 \<le> (of_char c :: nat) \<and> (of_char c :: nat) \<le> 0x5A
             then of_char c + 0x20 else (of_char c :: nat))"



section \<open>Plans, records, backend calls\<close>

text \<open>
  A plan and a stored record are flat mappings from attribute names to primitive values.
  \<^verbatim>\<open>req.Plan.Get\<close> and \<^verbatim>\<open>req.State.Get\<close> decode them into structs of
  \<^verbatim>\<open>types.String\<close>, \<^verbatim>\<open>types.Bool\<close> and \<^verbatim>\<open>types.Int64\<close> fields, whose
  \<^verbatim>\<open>ValueString\<close>, \<^verbatim>\<open>ValueBool\<close> and \<^verbatim>\<open>ValueInt64\<close> read a missing attribute
  as the zero value.
\<close>

datatype val = Str string | Flag bool | Num int | Items "val list"

type_synonym attrs = "(string \<times> val) list"

definition ValueString :: "attrs \<Rightarrow> string \<Rightarrow> string" where
  "ValueString a k = (case map_of a k of Some (Str v) \<Rightarrow> v | _ \<Rightarrow> '''')"

definition ValueBool :: "attrs \<Rightarrow> string \<Rightarrow> bool" where
  "ValueBool a k = (case map_of a k of Some (Flag v) \<Rightarrow> v | _ \<Rightarrow> False)"

definition ValueInt64 :: "attrs \<Rightarrow> string \<Rightarrow> int" where
  "ValueInt64 a k = (case map_of a k of Some (Num v) \<Rightarrow> v | _ \<Rightarrow> 0)"

definition IsNull :: "attrs \<Rightarrow> string \<Rightarrow> bool" where
  "IsNull a k = (map_of a k = None)"

text \<open>The conversion \<^verbatim>\<open>int32(x)\<close> of an \<^verbatim>\<open>int64\<close>: the low 32 bits, signed.\<close>

definition int32 :: "int \<Rightarrow> int" where
  "int32 x = (x + 2147483648) mod 4294967296 - 2147483648"

text \<open>
  The SDK clients a resource holds (the fields of \<^verbatim>\<open>shared.ProviderConfig\<close>, copied
  into every resource by \<^verbatim>\<open>Configure\<close>), and the local libraries whose calls can
  fail: the process environment and file system, the blob data-plane client built from
  an account key, and the HTTP client.
\<close>

datatype client =
    S3 | EC2 | EKS | Lambda | Route53
  | AzureRG | AzureAcct | AzureBlobContainers | AzureVNet | AzureSubnets | AzureNIC | AzurePIP
  | AzureVM | AzureAKS | AzureWeb | AzurePlan | AzureDNSZones | AzureDNSRecords
  | GCPStorage | GCPCompute | GKE | GCPFunctions | GCPDNS
  | OS | Blob | HTTP

record provider_config =
  clients :: "client list"
  AzureSubID :: string
  AzureLocation :: string
  GCPProject :: string
  GCPRegion :: string

text \<open>\<^verbatim>\<open>r.ec2 != nil\<close> and the like: the client was configured.\<close>

definition has :: "provider_config \<Rightarrow> client \<Rightarrow> bool" where
  "has r c = (c \<in> set (clients r))"

text \<open>
  One call: the client, the method and the arguments the source passes, in the order of
  the source.  A long-running Azure operation is two calls, the \<^verbatim>\<open>Begin...\<close> method
  and \<^verbatim>\<open>PollUntilDone\<close> on the poller it returned.  \<^verbatim>\<open>time.Sleep\<close> is recorded
  with its duration in seconds.
\<close>

datatype call = Call client string "val list" | PollUntilDone call | Sleep nat

text \<open>
  What a call returns: \<^verbatim>\<open>err != nil\<close> with its message, or the fields of the output
  the source reads (identifiers, names, a list of items).
\<close>

datatype reply = Err string | Ok "val list"

definition is_err :: "reply \<Rightarrow> bool" where
  "is_err rep = (case rep of Err _ \<Rightarrow> True | Ok _ \<Rightarrow> False)"

definition err_msg :: "reply \<Rightarrow> string" where
  "err_msg rep = (case rep of Err e \<Rightarrow> e | Ok _ \<Rightarrow> '''')"

text \<open>A slice of the output, such as \<^verbatim>\<open>out.Vpcs\<close>.\<close>

definition items :: "reply \<Rightarrow> val list" where
  "items rep = (case rep of Ok xs \<Rightarrow> xs | Err _ \<Rightarrow> [])"

text \<open>A string of the output read through \<^verbatim>\<open>aws.ToString\<close>, or a plain string field.\<close>

definition str0 :: "reply \<Rightarrow> string" where
  "str0 rep = (case items rep of Str v # _ \<Rightarrow> v | _ \<Rightarrow> '''')"

text \<open>A pointer field of the output, such as \<^verbatim>\<open>resp.ID\<close>.\<close>

definition ptr0 :: "reply \<Rightarrow> string option" where
  "ptr0 rep = (case items rep of Str v # _ \<Rightarrow> Some v | _ \<Rightarrow> None)"

definition flag0 :: "reply \<Rightarrow> bool" where
  "flag0 rep = (case items rep of Flag v # _ \<Rightarrow> v | _ \<Rightarrow> False)"

text \<open>
  The backends are outside the provider: a backend is any function from the calls made
  so far, with their replies, and the next call to its reply.
\<close>

type_synonym backend = "(call \<times> reply) list \<Rightarrow> call \<Rightarrow> reply"

text \<open>
  What a lifecycle call has done so far: the calls made, the error diagnostics added to
  the response, the state of the response (\<open>None\<close> when there is no record), the
  resource's \<^verbatim>\<open>azureLoc\<close> field, which the Azure branches assign, and whether
  the call has panicked.
\<close>

record ctx =
  trace :: "(call \<times> reply) list"
  diags :: "(string \<times> string) list"
  state :: "attrs option"
  azureLoc :: string
  panicked :: bool

definition new_ctx :: "provider_config \<Rightarrow> attrs option \<Rightarrow> ctx" where
  "new_ctx r st =
    \<lparr>trace = [], diags = [], state = st, azureLoc = AzureLocation r, panicked = False\<rparr>"

text \<open>
  The body of a lifecycle method is written in continuation style: each statement takes
  the rest of the body.  \<open>ret\<close> is \<^verbatim>\<open>return\<close>.
\<close>

type_synonym 'a prog = "backend \<Rightarrow> ctx \<Rightarrow> 'a"

definition ret :: "ctx prog" where
  "ret bk s = s"

definition panic :: "ctx prog" where
  "panic bk s = s\<lparr>panicked := True\<rparr>"

definition invoke :: "call \<Rightarrow> (reply \<Rightarrow> 'a prog) \<Rightarrow> 'a prog" where
  "invoke c k bk s = k (bk (trace s) c) bk (s\<lparr>trace := trace s @ [(c, bk (trace s) c)]\<rparr>)"

text \<open>A call through a client the source does not test for \<^verbatim>\<open>nil\<close>.\<close>

definition invoke_on :: "bool \<Rightarrow> call \<Rightarrow> (reply \<Rightarrow> ctx prog) \<Rightarrow> ctx prog" where
  "invoke_on present c k = (if present then invoke c k else panic)"

text \<open>\<^verbatim>\<open>poller, err := Begin...(); if err == nil { resp, err = poller.PollUntilDone() }\<close>\<close>

definition begin_poll :: "call \<Rightarrow> (reply \<Rightarrow> 'a prog) \<Rightarrow> 'a prog" where
  "begin_poll c k =
    invoke c (\<lambda>b. if is_err b then k b else invoke (PollUntilDone c) k)"

definition sleep :: "nat \<Rightarrow> 'a prog \<Rightarrow> 'a prog" where
  "sleep n k bk s = k bk (s\<lparr>trace := trace s @ [(Sleep n, Ok [])]\<rparr>)"

definition add_error :: "string \<Rightarrow> string \<Rightarrow> 'a prog \<Rightarrow> 'a prog" where
  "add_error summary detail k bk s = k bk (s\<lparr>diags := diags s @ [(summary, detail)]\<rparr>)"

definition remove_resource :: "'a prog \<Rightarrow> 'a prog" where
  "remove_resource k bk s = k bk (s\<lparr>state := None\<rparr>)"

definition ensure_loc :: "(string \<Rightarrow> string) \<Rightarrow> 'a prog \<Rightarrow> 'a prog" where
  "ensure_loc f k bk s = k bk (s\<lparr>azureLoc := f (azureLoc s)\<rparr>)"

definition with_loc :: "(string \<Rightarrow> 'a prog) \<Rightarrow> 'a prog" where
  "with_loc k bk s = k (azureLoc s) bk s"

section \<open>The plugin framework\<close>

text \<open>
  The plan and the state of a request are objects with one attribute for every attribute
  of the resource's \<^verbatim>\<open>Schema\<close>.  \<^verbatim>\<open>req.Plan.Get(ctx, &plan)\<close> and
  \<^verbatim>\<open>req.State.Get(ctx, &state)\<close> decode the object into the struct they are given.
  The framework decodes by reflection: every attribute of the object needs a field of the
  struct tagged with its name, every tagged field needs an attribute of the object, and
  the type of the field has to take the type of the attribute.  Otherwise \<^verbatim>\<open>Get\<close>
  returns one error diagnostic with the summary \<^verbatim>\<open>Value Conversion Error\<close>.  Its
  detail is a text of the framework that lists the fields and attributes without a
  partner; it is shortened here to its fixed part.  Every method appends the diagnostics
  of \<^verbatim>\<open>Get\<close> to the response and returns when there is an error among them:
  \<^verbatim>\<open>if resp.Diagnostics.HasError() { return }\<close>.
\<close>

datatype attr_type = StringT | BoolT | Int64T

type_synonym object_type = "(string \<times> attr_type) list"

definition Get_decodes :: "object_type \<Rightarrow> object_type \<Rightarrow> bool" where
  "Get_decodes sch fs = (set fs = set sch)"

text \<open>
  A method that decodes into a struct with the given fields, for a resource with the given
  schema: \<open>out\<close> is the early return, \<open>body\<close> the rest of the method.
\<close>

definition decode :: "object_type \<Rightarrow> object_type \<Rightarrow> 'a prog \<Rightarrow> 'a prog \<Rightarrow> 'a prog" where
  "decode sch fs out body =
    (if Get_decodes sch fs then body
     else add_error ''Value Conversion Error'' ''mismatch between struct and object'' out)"

text \<open>
  \<^verbatim>\<open>resp.State.Set(ctx, map[string]interface{}{...})\<close>, as every \<^verbatim>\<open>Create\<close> ends.
  The framework converts the Go value it is given by its kind, against the type of the
  schema, which is an object type.  A Go map converts to a map type only, so
  \<^verbatim>\<open>Set\<close> returns an error diagnostic and leaves the state of the response as it
  was.  The source does not look at what \<^verbatim>\<open>Set\<close> returns: the diagnostic is lost.
  The argument is the map the source builds.
\<close>

definition state_set :: "attrs \<Rightarrow> 'a prog \<Rightarrow> 'a prog" where
  "state_set a k bk s = k bk s"

section \<open>NetworkResource\<close>

definition network_create_aws :: "provider_config \<Rightarrow> attrs \<Rightarrow> ctx prog" where
  "network_create_aws r plan =
    (if \<not> has r EC2 then add_error ''missing AWS client'' '''' ret
     else
       let cidr = (if ValueString plan ''cidr'' = '''' then ''10.0.0.0/16''
                   else ValueString plan ''cidr'')
       in
       invoke (Call EC2 ''CreateVpc'' [Str cidr]) (\<lambda>vpcOut.
       if is_err vpcOut then add_error ''aws create vpc'' (err_msg vpcOut) ret
       else
         let vpcID = str0 vpcOut;
             rest =
               invoke (Call EC2 ''DescribeAvailabilityZones'' []) (\<lambda>azs.
               if is_err azs \<or> items azs = []
               then add_error ''aws zones'' ''unable to determine availability zone'' ret
               else
                 let zone = str0 azs in
                 invoke (Call EC2 ''CreateSubnet'' [Str vpcID, Str cidr, Str zone]) (\<lambda>subnetOut.
                 if is_err subnetOut then add_error ''aws create subnet'' (err_msg subnetOut) ret
                 else
                   let subnetID = str0 subnetOut in
                   invoke (Call EC2 ''CreateInternetGateway'' []) (\<lambda>igwOut.
                   if is_err igwOut then add_error ''aws create igw'' (err_msg igwOut) ret
                   else
                     let gatewayID = str0 igwOut in
                     invoke (Call EC2 ''AttachInternetGateway'' [Str vpcID, Str gatewayID]) (\<lambda>att.
                     if is_err att then add_error ''aws attach igw'' (err_msg att) ret
                     else
                       state_set
                         [(''id'', Str vpcID),
                          (''name'', Str (ValueString plan ''name'')),
                          (''cidr'', Str cidr),
                          (''type'', Str (ValueString plan ''type'')),
                          (''subnet_id'', Str subnetID),
                          (''gateway_id'', Str gatewayID)] ret))))
         in
         if ValueString plan ''name'' \<noteq> '''' then
           invoke (Call EC2 ''CreateTags'' [Str vpcID, Str ''Name'', Str (ValueString plan ''name'')])
             (\<lambda>tags. if is_err tags then add_error ''aws tag vpc'' (err_msg tags) ret else rest)
         else rest))"

definition network_create_azure :: "provider_config \<Rightarrow> attrs \<Rightarrow> ctx prog" where
  "network_create_azure r plan =
    (if \<not> has r AzureVNet \<or> \<not> has r AzureSubnets \<or> \<not> has r AzureRG
     then add_error ''azure'' ''missing client'' ret
     else
       let cidr = (if ValueString plan ''cidr'' = '''' then ''10.0.0.0/16''
                   else ValueString plan ''cidr'');
           rgName = ''abstract-rg'';
           name = ValueString plan ''name''
       in
       ensure_loc (\<lambda>l. if l = '''' then ''eastus'' else l) (with_loc (\<lambda>loc.
       invoke (Call AzureRG ''CreateOrUpdate'' [Str rgName, Str loc]) (\<lambda>rg.
       if is_err rg then add_error ''azure rg'' (err_msg rg) ret
       else
         begin_poll (Call AzureVNet ''BeginCreateOrUpdate'' [Str rgName, Str name, Str loc, Str cidr])
           (\<lambda>vnetResp.
         if is_err vnetResp then add_error ''azure create vnet'' (err_msg vnetResp) ret
         else
           let vnetID = str0 vnetResp in
           begin_poll
             (Call AzureSubnets ''BeginCreateOrUpdate''
                [Str rgName, Str name, Str ''default'', Str cidr])
             (\<lambda>subnetResp.
           if is_err subnetResp then add_error ''azure create subnet'' (err_msg subnetResp) ret
           else
             let subnetID = str0 subnetResp in
             state_set
               [(''id'', Str vnetID),
                (''name'', Str name),
                (''cidr'', Str cidr),
                (''type'', Str (ValueString plan ''type'')),
                (''subnet_id'', Str subnetID)] ret))))))"

definition network_create_gcp :: "provider_config \<Rightarrow> attrs \<Rightarrow> ctx prog" where
  "network_create_gcp r plan =
    (if \<not> has r GCPCompute then add_error ''gcp'' ''missing client'' ret
     else
       let name = (if ValueString plan ''name'' = '''' then ''abstract-network''
                   else ValueString plan ''name'');
           cidr = ValueString plan ''cidr''
       in
       invoke (Call GCPCompute ''Networks.Insert'' [Str (GCPProject r), Str name, Flag (cidr = '''')])
         (\<lambda>ins.
       if is_err ins then add_error ''gcp create network'' (err_msg ins) ret
       else
         let done = (\<lambda>subnetID.
               state_set
                 [(''id'', Str name),
                  (''name'', Str name),
                  (''cidr'', Str cidr),
                  (''type'', Str (ValueString plan ''type'')),
                  (''subnet_id'', Str subnetID)] ret)
         in
         if cidr \<noteq> '''' then
           let region = (if GCPRegion r = '''' then ''us-central1'' else GCPRegion r) in
           invoke (Call GCPCompute ''Subnetworks.Insert''
                     [Str (GCPProject r), Str region, Str (name @ ''-subnet''), Str cidr,
                      Str (''projects/'' @ GCPProject r @ ''/global/networks/'' @ name)])
             (\<lambda>sn.
           if is_err sn then add_error ''gcp create subnet'' (err_msg sn) ret
           else done (name @ ''-subnet''))
         else done ''''))"

definition network_create :: "provider_config \<Rightarrow> attrs \<Rightarrow> ctx prog" where
  "network_create r plan =
    (let ty = ValueString plan ''type'' in
     if ty = ''aws'' then network_create_aws r plan
     else if ty = ''azure'' then network_create_azure r plan
     else if ty = ''gcp'' then network_create_gcp r plan
     else add_error ''unsupported cloud'' ''only aws and azure implemented'' ret)"

definition network_read :: "provider_config \<Rightarrow> attrs \<Rightarrow> ctx prog" where
  "network_read r st =
    (let ty = ValueString st ''type''; id = ValueString st ''id'' in
     if ty = ''aws'' then
       (if \<not> has r EC2 then ret
        else invoke (Call EC2 ''DescribeVpcs'' [Str id]) (\<lambda>out.
             if is_err out \<or> items out = [] then remove_resource ret else ret))
     else if ty = ''azure'' then
       (if \<not> has r AzureVNet then ret
        else invoke (Call AzureVNet ''Get'' [Str ''abstract-rg'', Str id]) (\<lambda>got.
             if is_err got then remove_resource ret else ret))
     else if ty = ''gcp'' then
       (if \<not> has r GCPCompute then ret
        else invoke (Call GCPCompute ''Networks.Get'' [Str (GCPProject r), Str id]) (\<lambda>got.
             if is_err got then remove_resource ret else ret))
     else ret)"

definition network_delete :: "provider_config \<Rightarrow> attrs \<Rightarrow> ctx prog" where
  "network_delete r st =
    (let ty = ValueString st ''type''; id = ValueString st ''id'';
         subnetID = ValueString st ''subnet_id''; gatewayID = ValueString st ''gateway_id''
     in
     if ty = ''aws'' then
       (if \<not> has r EC2 then ret
        else
          let vpc = invoke (Call EC2 ''DeleteVpc'' [Str id]) (\<lambda>del.
                    if is_err del then add_error ''aws delete vpc'' (err_msg del) ret else ret);
              subnet = (if subnetID \<noteq> ''''
                        then invoke (Call EC2 ''DeleteSubnet'' [Str subnetID]) (\<lambda>_. vpc)
                        else vpc)
          in
          if gatewayID \<noteq> '''' then
            invoke (Call EC2 ''DetachInternetGateway'' [Str gatewayID, Str id]) (\<lambda>_.
            invoke (Call EC2 ''DeleteInternetGateway'' [Str gatewayID]) (\<lambda>_. subnet))
          else subnet)
     else if ty = ''azure'' then
       (if \<not> has r AzureVNet then ret
        else begin_poll (Call AzureVNet ''BeginDelete'' [Str ''abstract-rg'', Str id]) (\<lambda>del.
             if is_err del then add_error ''azure delete vnet'' (err_msg del) ret else ret))
     else if ty = ''gcp'' then
       (if \<not> has r GCPCompute then ret
        else
          let net = invoke (Call GCPCompute ''Networks.Delete'' [Str (GCPProject r), Str id]) (\<lambda>del.
                    if is_err del then add_error ''gcp delete network'' (err_msg del) ret else ret)
          in
          if subnetID \<noteq> '''' then
            invoke (Call GCPCompute ''Subnetworks.Delete''
                      [Str (GCPProject r), Str (GCPRegion r), Str subnetID]) (\<lambda>_. net)
          else net)
     else ret)"

text \<open>
  The lifecycle methods as the framework calls them.  The response of \<^verbatim>\<open>Create\<close>
  starts without a record; the responses of \<^verbatim>\<open>Read\<close>, \<^verbatim>\<open>Update\<close> and
  \<^verbatim>\<open>Delete\<close> start with the stored record.  \<^verbatim>\<open>Create\<close>, \<^verbatim>\<open>Read\<close> and
  \<^verbatim>\<open>Delete\<close> first decode the plan or the record into a struct of their own.  The
  body of \<^verbatim>\<open>NetworkResource.Update\<close> is empty.
\<close>

definition NetworkResource_Schema :: object_type where
  "NetworkResource_Schema =
    [(''id'', StringT), (''name'', StringT), (''cidr'', StringT), (''type'', StringT),
     (''subnet_id'', StringT), (''gateway_id'', StringT)]"

definition NetworkResource_Create :: "provider_config \<Rightarrow> attrs \<Rightarrow> backend \<Rightarrow> ctx" where
  "NetworkResource_Create r plan bk =
    decode NetworkResource_Schema
      [(''name'', StringT), (''cidr'', StringT), (''type'', StringT)]
      ret (network_create r plan) bk (new_ctx r None)"

definition NetworkResource_Read :: "provider_config \<Rightarrow> attrs \<Rightarrow> backend \<Rightarrow> ctx" where
  "NetworkResource_Read r st bk =
    decode NetworkResource_Schema [(''id'', StringT), (''type'', StringT)]
      ret (network_read r st) bk (new_ctx r (Some st))"

definition NetworkResource_Update :: "provider_config \<Rightarrow> attrs \<Rightarrow> attrs \<Rightarrow> backend \<Rightarrow> ctx" where
  "NetworkResource_Update r st plan bk = ret bk (new_ctx r (Some st))"

definition NetworkResource_Delete :: "provider_config \<Rightarrow> attrs \<Rightarrow> backend \<Rightarrow> ctx" where
  "NetworkResource_Delete r st bk =
    decode NetworkResource_Schema
      [(''id'', StringT), (''type'', StringT), (''subnet_id'', StringT), (''gateway_id'', StringT)]
      ret (network_delete r st) bk (new_ctx r (Some st))"

section \<open>InstanceResource\<close>

definition instance_create_aws :: "casetable \<Rightarrow> provider_config \<Rightarrow> attrs \<Rightarrow> ctx prog" where
  "instance_create_aws lt r plan =
    (if \<not> has r EC2 then add_error ''missing AWS client'' '''' ret
     else if ValueString plan ''image'' = ''''
     then add_error ''missing image'' ''ami id must be provided'' ret
     else
       let instanceType = instanceType_aws lt (ValueString plan ''size'') in
       invoke (Call EC2 ''RunInstances''
                 [Str (ValueString plan ''image''), Str instanceType, Num 1, Num 1,
                  Flag (ValueBool plan ''public_ip'')]) (\<lambda>out.
       if is_err out \<or> items out = []
       then add_error ''aws run instance''
              (if is_err out then err_msg out else ''no instance returned'') ret
       else
         let id = str0 out;
             done =
               state_set
                 [(''id'', Str id),
                  (''name'', Str (ValueString plan ''name'')),
                  (''type'', Str (ValueString plan ''type'')),
                  (''region'', Str (ValueString plan ''region'')),
                  (''image'', Str (ValueString plan ''image'')),
                  (''size'', Str instanceType),
                  (''public_ip'', Flag (ValueBool plan ''public_ip''))] ret
         in
         if ValueString plan ''name'' \<noteq> '''' then
           invoke (Call EC2 ''CreateTags'' [Str id, Str ''Name'', Str (ValueString plan ''name'')])
             (\<lambda>tags. if is_err tags then add_error ''aws tag instance'' (err_msg tags) ret
                     else done)
         else done))"

text \<open>
  The Azure chain: resource group, then virtual network and subnet unless the subnet
  \<^verbatim>\<open>default\<close> of \<^verbatim>\<open>abstract-vnet\<close> is found, public address, network interface,
  virtual machine.  \<^verbatim>\<open>r.azureVNet\<close> is used without a test for \<^verbatim>\<open>nil\<close>, and
  \<^verbatim>\<open>*subnetResp.ID\<close> is dereferenced without one.
\<close>

definition instance_create_azure :: "casetable \<Rightarrow> provider_config \<Rightarrow> attrs \<Rightarrow> ctx prog" where
  "instance_create_azure lt r plan =
    (if \<not> has r AzureVM \<or> \<not> has r AzureNIC \<or> \<not> has r AzurePIP \<or> \<not> has r AzureRG
        \<or> \<not> has r AzureSubnets
     then add_error ''azure'' ''missing client'' ret
     else
       let rgName = ''abstract-rg'';
           name = ValueString plan ''name'';
           region = ValueString plan ''region''
       in
       ensure_loc (\<lambda>l. if l = '''' \<and> region \<noteq> '''' then region else l) (with_loc (\<lambda>loc.
       invoke (Call AzureRG ''CreateOrUpdate'' [Str rgName, Str loc]) (\<lambda>rg.
       if is_err rg then add_error ''azure rg'' (err_msg rg) ret
       else
         let vnetName = ''abstract-vnet'';
             subnetName = ''default'';
             rest = (\<lambda>subnetPtr.
               case subnetPtr of
                 None \<Rightarrow> panic
               | Some subnetID \<Rightarrow>
                   begin_poll
                     (Call AzurePIP ''BeginCreateOrUpdate'' [Str rgName, Str (name @ ''-pip''), Str loc])
                     (\<lambda>pipResp.
                   if is_err pipResp then add_error ''azure pip'' (err_msg pipResp) ret
                   else
                     let pipID = str0 pipResp in
                     begin_poll
                       (Call AzureNIC ''BeginCreateOrUpdate''
                          [Str rgName, Str (name @ ''-nic''), Str loc, Str subnetID, Str pipID])
                       (\<lambda>nicResp.
                     if is_err nicResp then add_error ''azure nic'' (err_msg nicResp) ret
                     else
                       let nicID = str0 nicResp;
                           vmSize = vmSize_azure lt (ValueString plan ''size'')
                       in
                       begin_poll
                         (Call AzureVM ''BeginCreateOrUpdate''
                            [Str rgName, Str name, Str loc, Str vmSize, Str nicID])
                         (\<lambda>vmResp.
                       if is_err vmResp then add_error ''azure vm'' (err_msg vmResp) ret
                       else
                         let vmID = str0 vmResp in
                         state_set
                           [(''id'', Str vmID),
                            (''name'', Str name),
                            (''type'', Str (ValueString plan ''type'')),
                            (''region'', Str loc),
                            (''image'', Str (ValueString plan ''image'')),
                            (''size'', Str vmSize),
                            (''public_ip'', Flag (ValueBool plan ''public_ip''))] ret))))
         in
         invoke (Call AzureSubnets ''Get'' [Str rgName, Str vnetName, Str subnetName]) (\<lambda>subnetResp.
         if is_err subnetResp \<or> ptr0 subnetResp = None then
           if \<not> has r AzureVNet then panic
           else
           begin_poll
             (Call AzureVNet ''BeginCreateOrUpdate''
                [Str rgName, Str vnetName, Str loc, Str ''10.0.0.0/16''])
             (\<lambda>vnetResp.
           if is_err vnetResp then add_error ''azure vnet'' (err_msg vnetResp) ret
           else
             begin_poll
               (Call AzureSubnets ''BeginCreateOrUpdate''
                  [Str rgName, Str vnetName, Str subnetName, Str ''10.0.0.0/24''])
               (\<lambda>subResp.
             if is_err subResp then add_error ''azure subnet'' (err_msg subResp) ret
             else rest (ptr0 subResp)))
         else rest (ptr0 subnetResp))))))"

definition instance_create_gcp :: "casetable \<Rightarrow> provider_config \<Rightarrow> attrs \<Rightarrow> ctx prog" where
  "instance_create_gcp lt r plan =
    (if \<not> has r GCPCompute then add_error ''gcp'' ''missing client'' ret
     else
       let zone0 = (if ValueString plan ''region'' = '''' then GCPRegion r
                    else ValueString plan ''region'');
           zone = (if zone0 = '''' then ''us-central1-a'' else zone0);
           machineType = machineType_gcp lt (ValueString plan ''size'');
           image = (if ValueString plan ''image'' = ''''
                    then ''projects/debian-cloud/global/images/family/debian-11''
                    else ValueString plan ''image'')
       in
       invoke (Call GCPCompute ''Instances.Insert''
                 [Str (GCPProject r), Str zone, Str (ValueString plan ''name''),
                  Str (''zones/'' @ zone @ ''/machineTypes/'' @ machineType), Str image,
                  Str (''projects/'' @ GCPProject r @ ''/global/networks/default''),
                  Flag (ValueBool plan ''public_ip'')]) (\<lambda>ins.
       if is_err ins then add_error ''gcp create instance'' (err_msg ins) ret
       else
         state_set
           [(''id'', Str (ValueString plan ''name'')),
            (''name'', Str (ValueString plan ''name'')),
            (''type'', Str (ValueString plan ''type'')),
            (''region'', Str zone),
            (''image'', Str image),
            (''size'', Str machineType),
            (''public_ip'', Flag (ValueBool plan ''public_ip''))] ret))"

definition instance_create :: "casetable \<Rightarrow> provider_config \<Rightarrow> attrs \<Rightarrow> ctx prog" where
  "instance_create lt r plan =
    (let ty = ValueString plan ''type'' in
     if ty = ''aws'' then instance_create_aws lt r plan
     else if ty = ''azure'' then instance_create_azure lt r plan
     else if ty = ''gcp'' then instance_create_gcp lt r plan
     else add_error ''unsupported cloud'' ''only aws and azure implemented'' ret)"

text \<open>
  \<^verbatim>\<open>DescribeInstances\<close> returns reservations, each a list of instances: the record
  is dropped when there is no reservation or the first one is empty.
\<close>

definition no_instance :: "reply \<Rightarrow> bool" where
  "no_instance out =
    (case items out of
       [] \<Rightarrow> True
     | Items instances # _ \<Rightarrow> instances = []
     | _ \<Rightarrow> True)"

definition gcp_zone :: "provider_config \<Rightarrow> attrs \<Rightarrow> string" where
  "gcp_zone r st =
    (let zone0 = (if ValueString st ''region'' = '''' then GCPRegion r
                  else ValueString st ''region'')
     in if zone0 = '''' then ''us-central1-a'' else zone0)"

definition instance_read :: "provider_config \<Rightarrow> attrs \<Rightarrow> ctx prog" where
  "instance_read r st =
    (let ty = ValueString st ''type''; id = ValueString st ''id'' in
     if ty = ''aws'' then
       (if \<not> has r EC2 then ret
        else invoke (Call EC2 ''DescribeInstances'' [Str id]) (\<lambda>out.
             if is_err out \<or> no_instance out then remove_resource ret else ret))
     else if ty = ''azure'' then
       (if \<not> has r AzureVM then ret
        else invoke (Call AzureVM ''Get'' [Str ''abstract-rg'', Str id]) (\<lambda>got.
             if is_err got then remove_resource ret else ret))
     else if ty = ''gcp'' then
       (if \<not> has r GCPCompute then ret
        else invoke (Call GCPCompute ''Instances.Get'' [Str (GCPProject r), Str (gcp_zone r st), Str id])
               (\<lambda>got. if is_err got then remove_resource ret else ret))
     else ret)"

definition instance_delete :: "provider_config \<Rightarrow> attrs \<Rightarrow> ctx prog" where
  "instance_delete r st =
    (let ty = ValueString st ''type''; id = ValueString st ''id'' in
     if ty = ''aws'' then
       (if \<not> has r EC2 then ret
        else invoke (Call EC2 ''TerminateInstances'' [Str id]) (\<lambda>del.
             if is_err del then add_error ''aws terminate'' (err_msg del) ret else ret))
     else if ty = ''azure'' then
       (if \<not> has r AzureVM then ret
        else begin_poll (Call AzureVM ''BeginDelete'' [Str ''abstract-rg'', Str id]) (\<lambda>del.
             if is_err del then add_error ''azure delete'' (err_msg del) ret else ret))
     else if ty = ''gcp'' then
       (if \<not> has r GCPCompute then ret
        else invoke (Call GCPCompute ''Instances.Delete''
                       [Str (GCPProject r), Str (gcp_zone r st), Str id]) (\<lambda>del.
             if is_err del then add_error ''gcp delete'' (err_msg del) ret else ret))
     else ret)"

text \<open>
  The methods as the framework calls them.  The body of \<^verbatim>\<open>InstanceResource.Update\<close>
  is empty.
\<close>

definition InstanceResource_Schema :: object_type where
  "InstanceResource_Schema =
    [(''id'', StringT), (''name'', StringT), (''type'', StringT), (''region'', StringT),
     (''image'', StringT), (''size'', StringT), (''public_ip'', BoolT)]"

definition InstanceResource_Create ::
  "casetable \<Rightarrow> provider_config \<Rightarrow> attrs \<Rightarrow> backend \<Rightarrow> ctx" where
  "InstanceResource_Create lt r plan bk =
    decode InstanceResource_Schema
      [(''name'', StringT), (''type'', StringT), (''region'', StringT), (''image'', StringT),
       (''size'', StringT), (''public_ip'', BoolT)]
      ret (instance_create lt r plan) bk (new_ctx r None)"

definition InstanceResource_Read :: "provider_config \<Rightarrow> attrs \<Rightarrow> backend \<Rightarrow> ctx" where
  "InstanceResource_Read r st bk =
    decode InstanceResource_Schema
      [(''id'', StringT), (''type'', StringT), (''region'', StringT)]
      ret (instance_read r st) bk (new_ctx r (Some st))"

definition InstanceResource_Update :: "provider_config \<Rightarrow> attrs \<Rightarrow> attrs \<Rightarrow> backend \<Rightarrow> ctx" where
  "InstanceResource_Update r st plan bk = ret bk (new_ctx r (Some st))"

definition InstanceResource_Delete :: "provider_config \<Rightarrow> attrs \<Rightarrow> backend \<Rightarrow> ctx" where
  "InstanceResource_Delete r st bk =
    decode InstanceResource_Schema
      [(''id'', StringT), (''type'', StringT), (''region'', StringT)]
      ret (instance_delete r st) bk (new_ctx r (Some st))"

section \<open>BucketResource\<close>

text \<open>
  The AWS branches call \<^verbatim>\<open>r.s3\<close> without a test for \<^verbatim>\<open>nil\<close>.  The Azure
  branches reach the container through a data-plane client built from the first key of
  the storage account.
\<close>

definition bucket_create_aws :: "provider_config \<Rightarrow> attrs \<Rightarrow> ctx prog" where
  "bucket_create_aws r plan =
    (let name = ValueString plan ''name'' in
     invoke_on (has r S3) (Call S3 ''CreateBucket'' [Str name, Str (ValueString plan ''region'')])
       (\<lambda>cr.
     if is_err cr then add_error ''aws create'' (err_msg cr) ret
     else
       let done =
             state_set
               [(''id'', Str name),
                (''name'', Str name),
                (''type'', Str (ValueString plan ''type'')),
                (''region'', Str (ValueString plan ''region'')),
                (''versioning'', Flag (ValueBool plan ''versioning''))] ret
       in
       if ValueBool plan ''versioning'' then
         invoke (Call S3 ''PutBucketVersioning'' [Str name, Str ''Enabled'']) (\<lambda>ver.
         if is_err ver then add_error ''aws versioning'' (err_msg ver) ret else done)
       else done))"

text \<open>
  The steps shared by the Azure branches once the account keys are listed:
  \<^verbatim>\<open>key := *keys.Keys[0].Value\<close>, the credential, the service client.
\<close>

definition blob_service :: "string \<Rightarrow> reply \<Rightarrow> (string \<Rightarrow> ctx prog) \<Rightarrow> ctx prog" where
  "blob_service account keys k =
    (case ptr0 keys of
       None \<Rightarrow> panic
     | Some key \<Rightarrow>
         invoke (Call Blob ''NewSharedKeyCredential'' [Str account, Str key]) (\<lambda>cred.
         if is_err cred then add_error ''azure cred'' (err_msg cred) ret
         else
           let url = ''https://'' @ account @ ''.blob.core.windows.net/'' in
           invoke (Call Blob ''NewClientWithSharedKeyCredential'' [Str url]) (\<lambda>svc.
           if is_err svc then add_error ''azure svc'' (err_msg svc) ret
           else k url)))"

definition bucket_create_azure :: "casetable \<Rightarrow> provider_config \<Rightarrow> attrs \<Rightarrow> ctx prog" where
  "bucket_create_azure lt r plan =
    (if \<not> has r AzureAcct \<or> \<not> has r AzureBlobContainers \<or> \<not> has r AzureRG
     then add_error ''azure'' ''missing client'' ret
     else
       let rgName = ''abstract-rg'';
           name = ValueString plan ''name'';
           region = ValueString plan ''region''
       in
       ensure_loc (\<lambda>l. if l = '''' \<and> region \<noteq> '''' then region else l) (with_loc (\<lambda>loc.
       invoke (Call AzureRG ''CreateOrUpdate'' [Str rgName, Str loc]) (\<lambda>rg.
       if is_err rg then add_error ''azure rg'' (err_msg rg) ret
       else
         let account = acctName lt name in
         begin_poll (Call AzureAcct ''BeginCreate'' [Str rgName, Str account, Str loc]) (\<lambda>acct.
         if is_err acct then add_error ''azure create account'' (err_msg acct) ret
         else
           invoke (Call AzureAcct ''ListKeys'' [Str rgName, Str account]) (\<lambda>keys.
           if is_err keys \<or> items keys = []
           then add_error ''azure keys'' ''unable to get account key'' ret
           else
             blob_service account keys (\<lambda>url.
             invoke (Call Blob ''CreateContainer'' [Str url, Str name]) (\<lambda>cont.
             if is_err cont then add_error ''azure container'' (err_msg cont) ret
             else
               state_set
                 [(''id'', Str name),
                  (''name'', Str name),
                  (''type'', Str (ValueString plan ''type'')),
                  (''region'', Str loc),
                  (''versioning'', Flag (ValueBool plan ''versioning'')),
                  (''account'', Str account),
                  (''resource_group'', Str rgName)] ret))))))))"

definition bucket_create_gcp :: "provider_config \<Rightarrow> attrs \<Rightarrow> ctx prog" where
  "bucket_create_gcp r plan =
    (if \<not> has r GCPStorage then add_error ''gcp'' ''missing client'' ret
     else
       let name = ValueString plan ''name'';
           region = (if ValueString plan ''region'' = '''' then GCPRegion r
                     else ValueString plan ''region'')
       in
       invoke (Call GCPStorage ''Bucket.Create''
                 [Str name, Str (GCPProject r), Str region, Flag (ValueBool plan ''versioning'')])
         (\<lambda>cr.
       if is_err cr then add_error ''gcp create'' (err_msg cr) ret
       else
         state_set
           [(''id'', Str name),
            (''name'', Str name),
            (''type'', Str (ValueString plan ''type'')),
            (''region'', Str region),
            (''versioning'', Flag (ValueBool plan ''versioning'')),
            (''project'', Str (GCPProject r))] ret))"

definition bucket_create :: "casetable \<Rightarrow> provider_config \<Rightarrow> attrs \<Rightarrow> ctx prog" where
  "bucket_create lt r plan =
    (let ty = ValueString plan ''type'' in
     if ty = ''aws'' then bucket_create_aws r plan
     else if ty = ''azure'' then bucket_create_azure lt r plan
     else if ty = ''gcp'' then bucket_create_gcp r plan
     else add_error ''unsupported cloud'' ''only aws implemented'' ret)"

definition bucket_read :: "provider_config \<Rightarrow> attrs \<Rightarrow> ctx prog" where
  "bucket_read r st =
    (let ty = ValueString st ''type''; id = ValueString st ''id'';
         account = ValueString st ''account''; resourceGroup = ValueString st ''resource_group''
     in
     if ty = ''aws'' then
       invoke_on (has r S3) (Call S3 ''HeadBucket'' [Str id]) (\<lambda>hd.
       if is_err hd then add_error ''aws read'' (err_msg hd) (remove_resource ret) else ret)
     else if ty = ''azure'' then
       (if \<not> has r AzureAcct \<or> \<not> has r AzureBlobContainers
        then add_error ''azure'' ''missing client'' ret
        else
          invoke (Call AzureAcct ''ListKeys'' [Str resourceGroup, Str account]) (\<lambda>keys.
          if is_err keys \<or> items keys = []
          then add_error ''azure keys'' ''unable to get account key'' (remove_resource ret)
          else
            blob_service account keys (\<lambda>url.
            invoke (Call Blob ''GetProperties'' [Str url, Str id]) (\<lambda>props.
            if is_err props then add_error ''azure read'' (err_msg props) (remove_resource ret)
            else ret))))
     else if ty = ''gcp'' then
       (if \<not> has r GCPStorage then add_error ''gcp'' ''missing client'' ret
        else invoke (Call GCPStorage ''Bucket.Attrs'' [Str id]) (\<lambda>at.
             if is_err at then add_error ''gcp read'' (err_msg at) (remove_resource ret) else ret))
     else ret)"

definition bucket_update :: "provider_config \<Rightarrow> attrs \<Rightarrow> ctx prog" where
  "bucket_update r plan =
    (let ty = ValueString plan ''type''; name = ValueString plan ''name'' in
     if ty = ''aws'' then
       invoke_on (has r S3)
         (Call S3 ''PutBucketVersioning''
            [Str name, Str (if ValueBool plan ''versioning'' then ''Enabled'' else ''Suspended'')])
         (\<lambda>ver. if is_err ver then add_error ''aws update'' (err_msg ver) ret else ret)
     else if ty = ''gcp'' then
       (if \<not> has r GCPStorage then add_error ''gcp'' ''missing client'' ret
        else invoke (Call GCPStorage ''Bucket.Update'' [Str name, Flag (ValueBool plan ''versioning'')])
               (\<lambda>up. if is_err up then add_error ''gcp update'' (err_msg up) ret else ret))
     else ret)"

definition bucket_delete :: "provider_config \<Rightarrow> attrs \<Rightarrow> ctx prog" where
  "bucket_delete r st =
    (let ty = ValueString st ''type''; id = ValueString st ''id'';
         account = ValueString st ''account''; resourceGroup = ValueString st ''resource_group''
     in
     if ty = ''aws'' then
       invoke_on (has r S3) (Call S3 ''DeleteBucket'' [Str id]) (\<lambda>del.
       if is_err del then add_error ''aws delete'' (err_msg del) ret else ret)
     else if ty = ''azure'' then
       (if \<not> has r AzureAcct \<or> \<not> has r AzureBlobContainers
        then add_error ''azure'' ''missing client'' ret
        else
          invoke (Call AzureAcct ''ListKeys'' [Str resourceGroup, Str account]) (\<lambda>keys.
          if is_err keys \<or> items keys = []
          then add_error ''azure keys'' ''unable to get account key'' ret
          else
            blob_service account keys (\<lambda>url.
            invoke (Call Blob ''DeleteContainer'' [Str url, Str id]) (\<lambda>del.
            let account_delete =
                  invoke (Call AzureAcct ''Delete'' [Str resourceGroup, Str account]) (\<lambda>ad.
                  if is_err ad then add_error ''azure delete account'' (err_msg ad) ret else ret)
            in
            if is_err del then add_error ''azure delete'' (err_msg del) account_delete
            else account_delete))))
     else if ty = ''gcp'' then
       (if \<not> has r GCPStorage then add_error ''gcp'' ''missing client'' ret
        else invoke (Call GCPStorage ''Bucket.Delete'' [Str id]) (\<lambda>del.
             if is_err del then add_error ''gcp delete'' (err_msg del) ret else ret))
     else ret)"

text \<open>
  The methods as the framework calls them.  \<^verbatim>\<open>Read\<close> and \<^verbatim>\<open>Delete\<close> decode the
  record into a struct with the fields \<^verbatim>\<open>account\<close>, \<^verbatim>\<open>resource_group\<close> and
  \<^verbatim>\<open>project\<close>, which are no attributes of the schema.
\<close>

definition BucketResource_Schema :: object_type where
  "BucketResource_Schema =
    [(''id'', StringT), (''name'', StringT), (''type'', StringT), (''region'', StringT),
     (''versioning'', BoolT)]"

definition BucketResource_Create ::
  "casetable \<Rightarrow> provider_config \<Rightarrow> attrs \<Rightarrow> backend \<Rightarrow> ctx" where
  "BucketResource_Create lt r plan bk =
    decode BucketResource_Schema
      [(''name'', StringT), (''type'', StringT), (''region'', StringT), (''versioning'', BoolT)]
      ret (bucket_create lt r plan) bk (new_ctx r None)"

definition BucketResource_Read :: "provider_config \<Rightarrow> attrs \<Rightarrow> backend \<Rightarrow> ctx" where
  "BucketResource_Read r st bk =
    decode BucketResource_Schema
      [(''id'', StringT), (''type'', StringT), (''account'', StringT),
       (''resource_group'', StringT), (''project'', StringT)]
      ret (bucket_read r st) bk (new_ctx r (Some st))"

definition BucketResource_Update :: "provider_config \<Rightarrow> attrs \<Rightarrow> attrs \<Rightarrow> backend \<Rightarrow> ctx" where
  "BucketResource_Update r st plan bk =
    decode BucketResource_Schema
      [(''name'', StringT), (''type'', StringT), (''versioning'', BoolT)]
      ret (bucket_update r plan) bk (new_ctx r (Some st))"

definition BucketResource_Delete :: "provider_config \<Rightarrow> attrs \<Rightarrow> backend \<Rightarrow> ctx" where
  "BucketResource_Delete r st bk =
    decode BucketResource_Schema
      [(''id'', StringT), (''type'', StringT), (''account'', StringT),
       (''resource_group'', StringT), (''project'', StringT)]
      ret (bucket_delete r st) bk (new_ctx r (Some st))"

section \<open>Waiting for a GCP operation\<close>

text \<open>
  The loop the GCP branches of \<^verbatim>\<open>ClusterResource.Create\<close> and
  \<^verbatim>\<open>FunctionResource.Create\<close> write inline after starting an operation:
  \<^verbatim>\<open>for { oper, err := ...Operations.Get(op.Name)...; if err != nil { ...; return };
  if done { break }; time.Sleep(5 * time.Second) }\<close>.
  The two loops differ in the status call and in the test for completion
  (\<^verbatim>\<open>oper.Status == "DONE"\<close> for a cluster, \<^verbatim>\<open>oper.Done\<close> for a function).
  The loop has no other exit, so it is a partial function: \<open>None\<close> means that it
  never returns.  It returns the reply that ended it.
\<close>

partial_function (option) wait_operation ::
  "backend \<Rightarrow> call \<Rightarrow> (reply \<Rightarrow> bool) \<Rightarrow> ctx \<Rightarrow> (reply \<times> ctx) option" where
  "wait_operation bk get done s =
    (if is_err (bk (trace s) get) \<or> done (bk (trace s) get)
     then Some (bk (trace s) get, s\<lparr>trace := trace s @ [(get, bk (trace s) get)]\<rparr>)
     else wait_operation bk get done
            (s\<lparr>trace := trace s @ [(get, bk (trace s) get), (Sleep 5, Ok [])]\<rparr>))"

definition ret_some :: "ctx option prog" where
  "ret_some bk s = Some s"

definition await ::
  "call \<Rightarrow> (reply \<Rightarrow> bool) \<Rightarrow> (reply \<Rightarrow> ctx option prog) \<Rightarrow> ctx option prog" where
  "await get done k bk s =
    (case wait_operation bk get done s of
       None \<Rightarrow> None
     | Some (oper, s') \<Rightarrow> k oper bk s')"

section \<open>ClusterResource\<close>

text \<open>\<^verbatim>\<open>oper.Status == "DONE"\<close>\<close>

definition cluster_done :: "reply \<Rightarrow> bool" where
  "cluster_done oper = (str0 oper = ''DONE'')"

definition node_count :: "attrs \<Rightarrow> int" where
  "node_count plan =
    (if ValueInt64 plan ''node_count'' > 0 then int32 (ValueInt64 plan ''node_count'') else 3)"

definition cluster_create_aws :: "provider_config \<Rightarrow> attrs \<Rightarrow> ctx option prog" where
  "cluster_create_aws r plan =
    (if \<not> has r EKS \<or> \<not> has r EC2 then add_error ''missing AWS client'' '''' ret_some
     else
       let name = ValueString plan ''name'' in
       invoke (Call EC2 ''DescribeVpcs'' [Str ''isDefault'', Str ''true'']) (\<lambda>vpcs.
       if is_err vpcs \<or> items vpcs = []
       then add_error ''aws default vpc'' ''unable to find default vpc'' ret_some
       else
         let vpcID = str0 vpcs in
         invoke (Call EC2 ''DescribeSubnets'' [Str ''vpc-id'', Str vpcID]) (\<lambda>subnetsOut.
         if is_err subnetsOut \<or> items subnetsOut = []
         then add_error ''aws subnets'' ''unable to find subnets in default vpc'' ret_some
         else
           let subnetIDs = take 2 (items subnetsOut) in
           invoke (Call OS ''Getenv'' [Str ''EKS_ROLE_ARN'']) (\<lambda>role.
           invoke (Call OS ''Getenv'' [Str ''EKS_NODE_ROLE_ARN'']) (\<lambda>nodeRole.
           if str0 role = '''' \<or> str0 nodeRole = ''''
           then add_error ''missing roles'' ''EKS_ROLE_ARN and EKS_NODE_ROLE_ARN must be set''
                  ret_some
           else
             invoke (Call EKS ''CreateCluster'' [Str name, Str (str0 role), Items subnetIDs])
               (\<lambda>cl.
             if is_err cl then add_error ''aws create cluster'' (err_msg cl) ret_some
             else
               let desired = node_count plan;
                   instanceType = (if ValueString plan ''node_size'' = '''' then ''t3.medium''
                                   else ValueString plan ''node_size'')
               in
               invoke (Call EKS ''CreateNodegroup''
                         [Str name, Str (name @ ''-ng''), Str (str0 nodeRole), Items subnetIDs,
                          Num desired, Str instanceType]) (\<lambda>ng.
               if is_err ng then add_error ''aws create nodegroup'' (err_msg ng) ret_some
               else
                 state_set
                   [(''id'', Str name),
                    (''name'', Str name),
                    (''type'', Str (ValueString plan ''type'')),
                    (''region'', Str (ValueString plan ''region'')),
                    (''node_count'', Num desired),
                    (''node_size'', Str instanceType)] ret_some)))))))"

definition cluster_create_azure :: "provider_config \<Rightarrow> attrs \<Rightarrow> ctx option prog" where
  "cluster_create_azure r plan =
    (if \<not> has r AzureAKS \<or> \<not> has r AzureRG then add_error ''azure'' ''missing client'' ret_some
     else
       let region = ValueString plan ''region'';
           rgName = ''abstract-rg'';
           name = ValueString plan ''name''
       in
       ensure_loc (\<lambda>l. if l = '''' then (if region = '''' then ''eastus'' else region) else l)
         (with_loc (\<lambda>loc.
       invoke (Call AzureRG ''CreateOrUpdate'' [Str rgName, Str loc]) (\<lambda>rg.
       if is_err rg then add_error ''azure rg'' (err_msg rg) ret_some
       else
         let nodeCount = node_count plan;
             vmSize = (if ValueString plan ''node_size'' = '''' then ''Standard_DS2_v2''
                       else ValueString plan ''node_size'')
         in
         begin_poll
           (Call AzureAKS ''BeginCreateOrUpdate''
              [Str rgName, Str name, Str loc, Num nodeCount, Str vmSize]) (\<lambda>aks.
         if is_err aks then add_error ''azure create aks'' (err_msg aks) ret_some
         else
           state_set
             [(''id'', Str name),
              (''name'', Str name),
              (''type'', Str (ValueString plan ''type'')),
              (''region'', Str loc),
              (''node_count'', Num nodeCount),
              (''node_size'', Str vmSize)] ret_some)))))"

definition cluster_create_gcp :: "provider_config \<Rightarrow> attrs \<Rightarrow> ctx option prog" where
  "cluster_create_gcp r plan =
    (if \<not> has r GKE then add_error ''gcp'' ''missing client'' ret_some
     else
       let region = (if ValueString plan ''region'' \<noteq> '''' then ValueString plan ''region''
                     else if GCPRegion r \<noteq> '''' then GCPRegion r else ''us-central1'');
           name = (if ValueString plan ''name'' = '''' then ''abstract-cluster''
                   else ValueString plan ''name'');
           count = (if ValueInt64 plan ''node_count'' > 0 then ValueInt64 plan ''node_count''
                    else 3);
           machine = (if ValueString plan ''node_size'' = '''' then ''e2-medium''
                      else ValueString plan ''node_size'');
           parent = ''projects/'' @ GCPProject r @ ''/locations/'' @ region
       in
       invoke (Call GKE ''Clusters.Create'' [Str parent, Str name, Num count, Str machine]) (\<lambda>op.
       if is_err op then add_error ''gcp create cluster'' (err_msg op) ret_some
       else
         await (Call GKE ''Operations.Get'' [Str (str0 op)]) cluster_done
           (\<lambda>oper.
         if is_err oper then add_error ''gcp create cluster'' (err_msg oper) ret_some
         else
           state_set
             [(''id'', Str name),
              (''name'', Str name),
              (''type'', Str (ValueString plan ''type'')),
              (''region'', Str region),
              (''node_count'', Num count),
              (''node_size'', Str machine)] ret_some)))"

definition cluster_create :: "provider_config \<Rightarrow> attrs \<Rightarrow> ctx option prog" where
  "cluster_create r plan =
    (let ty = ValueString plan ''type'' in
     if ty = ''aws'' then cluster_create_aws r plan
     else if ty = ''azure'' then cluster_create_azure r plan
     else if ty = ''gcp'' then cluster_create_gcp r plan
     else add_error ''unsupported cloud'' ''only aws, azure, and gcp implemented'' ret_some)"



definition ClusterResource_Update :: "provider_config \<Rightarrow> attrs \<Rightarrow> attrs \<Rightarrow> backend \<Rightarrow> ctx" where
  "ClusterResource_Update r st plan bk = ret bk (new_ctx r (Some st))"

section \<open>FunctionResource\<close>







definition FunctionResource_Update :: "provider_config \<Rightarrow> attrs \<Rightarrow> attrs \<Rightarrow> backend \<Rightarrow> ctx" where
  "FunctionResource_Update r st plan bk = ret bk (new_ctx r (Some st))"

section \<open>DNSRecordResource\<close>

text \<open>
  The switch is on the lower-cased \<^verbatim>\<open>type\<close> attribute, which is also passed on as the
  kind of record.
\<close>













section \<open>Kinds of calls\<close>

text \<open>The client and method of a call; waiting on a poller belongs to the call that began it.\<close>

fun kind_of :: "call \<Rightarrow> client \<times> string" where
  "kind_of (Call cl m args) = (cl, m)"
| "kind_of (PollUntilDone c) = kind_of c"
| "kind_of (Sleep n) = (OS, ''Sleep'')"

text \<open>The calls that tear a sub-resource down.\<close>

definition is_destroy :: "call \<Rightarrow> bool" where
  "is_destroy c =
    (snd (kind_of c) \<in> set
      [''DeleteVpc'', ''DeleteSubnet'', ''DetachInternetGateway'', ''DeleteInternetGateway'',
       ''TerminateInstances'', ''BeginDelete'', ''Delete'', ''DeleteBucket'', ''DeleteContainer'',
       ''Networks.Delete'', ''Subnetworks.Delete'', ''Instances.Delete'', ''Bucket.Delete''])"


text \<open>The calls that create a sub-resource or bring it to the planned form.\<close>

definition is_apply :: "call \<Rightarrow> bool" where
  "is_apply c =
    (case c of
       Call cl m args \<Rightarrow> m \<in> set [''CreateOrUpdate'', ''BeginCreateOrUpdate'', ''BeginCreate'']
     | _ \<Rightarrow> False)"

text \<open>
  The change of the versioning setting of the bucket a plan names:
  \<^verbatim>\<open>PutBucketVersioning\<close> on AWS, \<^verbatim>\<open>Bucket(name).Update\<close> on GCP.
\<close>

definition versioning_change :: "attrs \<Rightarrow> call \<Rightarrow> bool" where
  "versioning_change plan c =
    (c = Call S3 ''PutBucketVersioning''
           [Str (ValueString plan ''name''),
            Str (if ValueBool plan ''versioning'' then ''Enabled'' else ''Suspended'')]
     \<or> c = Call GCPStorage ''Bucket.Update''
           [Str (ValueString plan ''name''), Flag (ValueBool plan ''versioning'')])"

text \<open>
  The resource group an Azure management call addresses: its first argument.  Calls to
  the other backends and to the blob data plane address none.
\<close>

fun rg_of :: "call \<Rightarrow> string option" where
  "rg_of (Call cl m args) =
    (if cl \<in> set [AzureRG, AzureAcct, AzureBlobContainers, AzureVNet, AzureSubnets, AzureNIC,
                   AzurePIP, AzureVM, AzureAKS, AzureWeb, AzurePlan, AzureDNSZones,
                   AzureDNSRecords]
     then (case args of Str g # _ \<Rightarrow> Some g | _ \<Rightarrow> None)
     else None)"
| "rg_of (PollUntilDone c) = rg_of c"
| "rg_of (Sleep n) = None"

definition in_group :: "string \<Rightarrow> call \<Rightarrow> bool" where
  "in_group g c = (case rg_of c of None \<Rightarrow> True | Some x \<Rightarrow> x = g)"

text \<open>
  The history after \<open>n\<close> status checks that did not end a wait: each is followed by a
  sleep of five seconds.
\<close>

fun polls :: "backend \<Rightarrow> call \<Rightarrow> (call \<times> reply) list \<Rightarrow> nat \<Rightarrow> (call \<times> reply) list" where
  "polls bk get h 0 = h"
| "polls bk get h (Suc n) =
     polls bk get h n @ [(get, bk (polls bk get h n) get), (Sleep 5, Ok [])]"

definition terminal :: "backend \<Rightarrow> call \<Rightarrow> (reply \<Rightarrow> bool) \<Rightarrow> (call \<times> reply) list \<Rightarrow> bool" where
  "terminal bk get done h = (is_err (bk h get) \<or> done (bk h get))"

text \<open>
  What \<^verbatim>\<open>InstanceResource.Create\<close> needs of Azure for a first instance: the subnet
  is not there yet, every other call succeeds, and creating the subnet returns its
  identifier.
\<close>

definition first_instance_reply :: "call \<Rightarrow> reply \<Rightarrow> bool" where
  "first_instance_reply c rep =
    (if kind_of c = (AzureSubnets, ''Get'') then is_err rep
     else if kind_of c = (AzureSubnets, ''BeginCreateOrUpdate'')
     then \<not> is_err rep \<and> (case c of PollUntilDone _ \<Rightarrow> ptr0 rep \<noteq> None | _ \<Rightarrow> True)
     else \<not> is_err rep)"

section \<open>Statements about runs\<close>

text \<open>
  A property of the result of a run.  The rule for a backend call replaces the reply
  by an arbitrary one, so a property proved with it holds for every backend.
\<close>

definition holds :: "('a \<Rightarrow> bool) \<Rightarrow> 'a \<Rightarrow> bool" where
  "holds Q x = Q x"

text \<open>
  What \<open>begin_poll\<close> adds to the trace and hands on: the failed \<^verbatim>\<open>Begin...\<close>
  call, or that call followed by the wait on its poller.
\<close>

definition poll_entries :: "call \<Rightarrow> reply \<Rightarrow> (call \<times> reply) list \<Rightarrow> bool" where
  "poll_entries c rep es =
    ((is_err rep \<and> es = [(c, rep)])
     \<or> (\<exists>b. \<not> is_err b \<and> es = [(c, b), (PollUntilDone c, rep)]))"

text \<open>A program all of whose backend calls satisfy a given property.\<close>

definition only_calls :: "(call \<Rightarrow> bool) \<Rightarrow> ctx prog \<Rightarrow> bool" where
  "only_calls P p =
    (\<forall>bk s. list_all P (map fst (trace s)) \<longrightarrow> list_all P (map fst (trace (p bk s))))"

text \<open>A call of the trace that failed, among the calls of one kind.\<close>

definition failed :: "(call \<Rightarrow> bool) \<Rightarrow> ctx \<Rightarrow> bool" where
  "failed P s = list_ex (\<lambda>(c, rep). P c \<and> is_err rep) (trace s)"



section \<open>Concrete inputs\<close>

definition all_clients :: provider_config where
  "all_clients =
    \<lparr>clients =
       [S3, EC2, EKS, Lambda, Route53, AzureRG, AzureAcct, AzureBlobContainers, AzureVNet,
        AzureSubnets, AzureNIC, AzurePIP, AzureVM, AzureAKS, AzureWeb, AzurePlan,
        AzureDNSZones, AzureDNSRecords, GCPStorage, GCPCompute, GKE, GCPFunctions, GCPDNS],
     AzureSubID = ''sub-1'', AzureLocation = ''westeurope'',
     GCPProject = ''proj-1'', GCPRegion = ''europe-west1''\<rparr>"

text \<open>A backend on which nothing exists: every call reports \<^verbatim>\<open>NotFound\<close>.\<close>

definition nothing_there :: backend where
  "nothing_there h c = Err ''NotFound''"

text \<open>A backend on which every call succeeds and returns one identifier.\<close>

definition all_ok :: backend where
  "all_ok h c = Ok [Str ''id-1'']"


definition fresh_azure :: backend where
  "fresh_azure h c =
    (if kind_of c = (AzureSubnets, ''Get'') then Err ''NotFound'' else Ok [Str ''id-1''])"

text \<open>An operation that stays \<^verbatim>\<open>RUNNING\<close> for ever, and one that is done at the third check.\<close>

definition never_done :: backend where
  "never_done h c = Ok [Str ''RUNNING'']"

definition done_at_third :: backend where
  "done_at_third h c =
    (if kind_of c = (GKE, ''Operations.Get'')
     then (if length h < 5 then Ok [Str ''RUNNING''] else Ok [Str ''DONE''])
     else Ok [Str ''op-1''])"

text \<open>
  The response of \<^verbatim>\<open>ClusterResource.Create\<close> when its GCP branch starts to wait:
  the cluster \<open>k1\<close> has been requested and the operation \<open>op-1\<close> returned.
\<close>

definition cluster_started :: ctx where
  "cluster_started =
    \<lparr>trace =
       [(Call GKE ''Clusters.Create''
           [Str ''projects/proj-1/locations/europe-west1'', Str ''k1'', Num 3, Str ''e2-medium''],
         Ok [Str ''op-1''])],
     diags = [], state = None, azureLoc = ''westeurope'', panicked = False\<rparr>"

definition vm_plan :: attrs where
  "vm_plan = [(''name'', Str ''vm1''), (''type'', Str ''azure''), (''size'', Str ''small'')]"

definition vm_record :: attrs where
  "vm_record = [(''id'', Str ''i-1''), (''name'', Str ''vm1''), (''type'', Str ''aws'')]"


definition unknown_plan :: attrs where
  "unknown_plan = [(''name'', Str ''x1''), (''type'', Str ''openstack'')]"

definition bucket_record :: attrs where
  "bucket_record = [(''id'', Str ''my-bucket-1''), (''name'', Str ''my-bucket-1''), (''type'', Str ''aws'')]"

definition bucket_plan :: attrs where
  "bucket_plan =
    [(''name'', Str ''my-bucket-1''), (''type'', Str ''aws''), (''versioning'', Flag True)]"

definition cluster_plan :: attrs where
  "cluster_plan = [(''name'', Str ''k1''), (''type'', Str ''gcp'')]"



text \<open>A name of 25 bytes whose last two bytes are the UTF-8 form of U+00E9.\<close>

definition long_name :: string where
  "long_name = ''aaaaaaaaaaaaaaaaaaaaaaa'' @ [CHR 0xC3, CHR 0xA9]"

definition net_record :: attrs where
  "net_record = [(''id'', Str ''vpc-1''), (''name'', Str ''net1''), (''type'', Str ''aws'')]"


section \<open>Rules for runs\<close>

lemma holds_invoke:
  "(\<And>rep. holds Q (k rep bk (s\<lparr>trace := trace s @ [(c, rep)]\<rparr>))) \<Longrightarrow>
   holds Q (invoke c k bk s)"
  by (simp add: invoke_def)

lemma holds_invoke_replies:
  "(\<And>h c. G c (bk h c)) \<Longrightarrow>
   (\<And>rep. G c rep \<Longrightarrow> holds Q (k rep bk (s\<lparr>trace := trace s @ [(c, rep)]\<rparr>))) \<Longrightarrow>
   holds Q (invoke c k bk s)"
  by (simp add: invoke_def)

lemma holds_ret: "Q s \<Longrightarrow> holds Q (ret bk s)"
  by (simp add: holds_def ret_def)

lemma holds_panic: "Q (s\<lparr>panicked := True\<rparr>) \<Longrightarrow> holds Q (panic bk s)"
  by (simp add: holds_def panic_def)

lemma holds_ret_some: "Q (Some s) \<Longrightarrow> holds Q (ret_some bk s)"
  by (simp add: holds_def ret_some_def)

lemma holds_if:
  "(b \<Longrightarrow> holds Q (p bk s)) \<Longrightarrow> (\<not> b \<Longrightarrow> holds Q (q bk s)) \<Longrightarrow>
   holds Q ((if b then p else q) bk s)"
  by simp

lemma holds_option:
  "(v = None \<Longrightarrow> holds Q (p bk s)) \<Longrightarrow> (\<And>x. v = Some x \<Longrightarrow> holds Q (q x bk s)) \<Longrightarrow>
   holds Q ((case v of None \<Rightarrow> p | Some x \<Rightarrow> q x) bk s)"
  by (cases v) simp_all

lemma holds_invoke_on:
  "(\<not> present \<Longrightarrow> holds Q (panic bk s)) \<Longrightarrow>
   (\<And>rep. present \<Longrightarrow> holds Q (k rep bk (s\<lparr>trace := trace s @ [(c, rep)]\<rparr>))) \<Longrightarrow>
   holds Q (invoke_on present c k bk s)"
  by (simp add: invoke_on_def invoke_def)

lemma holds_begin_poll:
  "(\<And>rep es. poll_entries c rep es \<Longrightarrow> holds Q (k rep bk (s\<lparr>trace := trace s @ es\<rparr>))) \<Longrightarrow>
   holds Q (begin_poll c k bk s)"
  by (simp add: begin_poll_def invoke_def poll_entries_def)

lemma holds_add_error:
  "holds Q (k bk (s\<lparr>diags := diags s @ [(summary, detail)]\<rparr>)) \<Longrightarrow>
   holds Q (add_error summary detail k bk s)"
  by (simp add: add_error_def)

lemma holds_state_set: "holds Q (k bk s) \<Longrightarrow> holds Q (state_set a k bk s)"
  by (simp add: state_set_def)

lemma holds_remove_resource:
  "holds Q (k bk (s\<lparr>state := None\<rparr>)) \<Longrightarrow> holds Q (remove_resource k bk s)"
  by (simp add: remove_resource_def)

lemma holds_ensure_loc:
  "holds Q (k bk (s\<lparr>azureLoc := f (azureLoc s)\<rparr>)) \<Longrightarrow> holds Q (ensure_loc f k bk s)"
  by (simp add: ensure_loc_def)

lemma holds_with_loc: "holds Q (k (azureLoc s) bk s) \<Longrightarrow> holds Q (with_loc k bk s)"
  by (simp add: with_loc_def)

lemmas holds_rules = holds_invoke holds_ret holds_panic holds_ret_some holds_if holds_option
  holds_invoke_on holds_begin_poll holds_add_error holds_state_set holds_remove_resource
  holds_ensure_loc holds_with_loc

lemmas step_defs = invoke_on_def begin_poll_def add_error_def state_set_def
  remove_resource_def ensure_loc_def with_loc_def sleep_def Let_def

lemmas run_defs = invoke_def ret_def panic_def ret_some_def new_ctx_def step_defs

lemmas reply_defs = is_err_def err_msg_def items_def str0_def ptr0_def flag0_def

lemmas attr_defs = ValueString_def ValueBool_def ValueInt64_def IsNull_def has_def

lemma only_calls_ret: "only_calls P ret"
  by (simp add: only_calls_def ret_def)

lemma only_calls_panic: "only_calls P panic"
  by (simp add: only_calls_def panic_def)

lemma only_calls_invoke:
  "P c \<Longrightarrow> (\<And>rep. only_calls P (k rep)) \<Longrightarrow> only_calls P (invoke c k)"
  by (simp add: only_calls_def invoke_def)

lemma only_calls_if:
  "only_calls P p \<Longrightarrow> only_calls P q \<Longrightarrow> only_calls P (if b then p else q)"
  by simp

lemma only_calls_invoke_on:
  "P c \<Longrightarrow> (\<And>rep. only_calls P (k rep)) \<Longrightarrow> only_calls P (invoke_on present c k)"
  by (simp add: invoke_on_def only_calls_invoke only_calls_panic)

lemma only_calls_begin_poll:
  "P c \<Longrightarrow> P (PollUntilDone c) \<Longrightarrow> (\<And>rep. only_calls P (k rep)) \<Longrightarrow>
   only_calls P (begin_poll c k)"
  by (simp add: begin_poll_def only_calls_invoke)

lemma only_calls_add_error: "only_calls P k \<Longrightarrow> only_calls P (add_error summary detail k)"
  by (simp add: only_calls_def add_error_def)

lemma only_calls_state_set: "only_calls P k \<Longrightarrow> only_calls P (state_set a k)"
  by (simp add: only_calls_def state_set_def)

lemma only_calls_remove_resource: "only_calls P k \<Longrightarrow> only_calls P (remove_resource k)"
  by (simp add: only_calls_def remove_resource_def)

lemma only_calls_ensure_loc: "only_calls P k \<Longrightarrow> only_calls P (ensure_loc f k)"
  by (simp add: only_calls_def ensure_loc_def)

lemma only_calls_with_loc: "(\<And>l. only_calls P (k l)) \<Longrightarrow> only_calls P (with_loc k)"
  by (simp add: only_calls_def with_loc_def)

lemma only_calls_option:
  "only_calls P p \<Longrightarrow> (\<And>x. only_calls P (q x)) \<Longrightarrow>
   only_calls P (case v of None \<Rightarrow> p | Some x \<Rightarrow> q x)"
  by (cases v) simp_all

lemmas only_calls_rules = only_calls_ret only_calls_panic only_calls_invoke only_calls_if
  only_calls_invoke_on only_calls_begin_poll only_calls_add_error only_calls_state_set
  only_calls_remove_resource only_calls_ensure_loc only_calls_with_loc only_calls_option

lemma only_calls_run:
  "only_calls P p \<Longrightarrow> list_all P (map fst (trace (p bk (new_ctx r st))))"
  by (simp add: only_calls_def new_ctx_def)


lemma list_all_weaken: "list_all P xs \<Longrightarrow> (\<And>x. P x \<Longrightarrow> Q x) \<Longrightarrow> list_all Q xs"
  by (induction xs) auto
section \<open>Normalization\<close>

lemma ToLower_literals:
  "ToLower lt ''small'' = ''small''"
  "ToLower lt ''t3.small'' = ''t3.small''"
  "ToLower lt ''t3.medium'' = ''t3.medium''"
  "ToLower lt ''t3.large'' = ''t3.large''"
  "ToLower lt ''Standard_B1s'' = ''standard_b1s''"
  "ToLower lt ''Standard_B2s'' = ''standard_b2s''"
  "ToLower lt ''Standard_B4ms'' = ''standard_b4ms''"
  "ToLower lt ''e2-small'' = ''e2-small''"
  "ToLower lt ''e2-medium'' = ''e2-medium''"
  "ToLower lt ''e2-standard-4'' = ''e2-standard-4''"
  by (simp_all add: ToLower_def ToLower_bytes_def char_of_def bit_0)

lemma instanceType_aws_twice:
  "instanceType_aws lt (instanceType_aws lt sz) = instanceType_aws lt sz"
  by (simp add: instanceType_aws_def Let_def ToLower_literals)

lemma vmSize_azure_twice: "vmSize_azure lt (vmSize_azure lt sz) = vmSize_azure lt sz"
  by (simp add: vmSize_azure_def Let_def ToLower_literals)

lemma machineType_gcp_twice:
  "machineType_gcp lt (machineType_gcp lt sz) = machineType_gcp lt sz"
  by (simp add: machineType_gcp_def Let_def ToLower_literals)

lemma size_passes_through:
  assumes "sz \<noteq> ''''" and "ToLower lt sz \<notin> {''small'', ''medium'', ''large''}"
  shows "instanceType_aws lt sz = sz \<and> vmSize_azure lt sz = sz \<and> machineType_gcp lt sz = sz"
  using assms by (simp add: instanceType_aws_def vmSize_azure_def machineType_gcp_def Let_def)

lemma ToLower_ascii: "is_ascii s \<Longrightarrow> ToLower lt s = map lower_char s"
  by (simp add: ToLower_def ToLower_bytes_def is_ascii_def lower_char_def list_all_iff comp_def)

lemma lower_char_ascii: "(of_char c :: nat) < 0x80 \<Longrightarrow> (of_char (lower_char c) :: nat) < 0x80"
  by (auto simp: lower_char_def)

lemma lower_char_twice: "(of_char c :: nat) < 0x80 \<Longrightarrow> lower_char (lower_char c) = lower_char c"
  by (auto simp: lower_char_def)

lemma is_ascii_lower: "is_ascii s \<Longrightarrow> is_ascii (map lower_char s)"
  by (induction s) (auto simp: is_ascii_def lower_char_ascii)

lemma is_ascii_take: "is_ascii s \<Longrightarrow> is_ascii (take n s)"
  by (auto simp: is_ascii_def list_all_iff dest: in_set_takeD)

lemma lower_twice_set:
  "is_ascii s \<Longrightarrow> x \<in> set s \<Longrightarrow> lower_char (lower_char x) = lower_char x"
  by (auto simp: is_ascii_def list_all_iff lower_char_twice)

lemma ToLower_twice:
  assumes "is_ascii s"
  shows "ToLower lt (ToLower lt s) = ToLower lt s"
  using assms by (simp add: ToLower_ascii is_ascii_lower lower_twice_set)

lemma acctName_take: "acctName lt name = take 24 (ToLower lt name)"
  by (simp add: acctName_def Let_def)

lemma acctName_twice:
  assumes "is_ascii name"
  shows "acctName lt (acctName lt name) = acctName lt name"
proof -
  let ?l = "map lower_char name"
  have "is_ascii (take 24 ?l)"
    using assms by (simp add: is_ascii_take is_ascii_lower)
  then have "ToLower lt (take 24 ?l) = map lower_char (take 24 ?l)"
    by (rule ToLower_ascii)
  also have "\<dots> = take 24 ?l"
    by (auto simp: take_map dest: in_set_takeD intro: lower_twice_set [OF assms])
  finally show ?thesis
    using assms by (simp add: acctName_take ToLower_ascii)
qed

lemma runes_ascii: "b < 0x80 \<Longrightarrow> runes (b # bs) = b # runes bs"
  by (simp add: DecodeRune_def DecodeRune1_def)

lemmas utf8_defs = ToLower_def ToLower_bytes_def Map_runes_def runes_ascii DecodeRune_def
  DecodeRune1_def EncodeRune_def unicode_ToLower_def latin1_table_def RuneError_def
  cont_byte_def char_of_def bit_0

lemma acctName_long_name:
  "acctName latin1_table long_name = ''aaaaaaaaaaaaaaaaaaaaaaa'' @ [CHR 0xC3]"
  by (simp add: long_name_def acctName_def utf8_defs)

lemma acctName_cut_rune:
  "acctName latin1_table (''aaaaaaaaaaaaaaaaaaaaaaa'' @ [CHR 0xC3])
     = ''aaaaaaaaaaaaaaaaaaaaaaa'' @ [CHR 0xEF]"
  by (simp add: acctName_def utf8_defs)

text \<open>
  C6, as amended: mapping a size twice gives what mapping it once gives, on every
  backend and for every size; a non-empty size that matches no generic class after
  lower-casing is passed through unchanged; lower-casing, cutting to 24 bytes and the
  storage-account normalization that composes them give the same result applied twice
  as applied once for every ASCII name.
\<close>

theorem C6_normalization_twice:
  "instanceType_aws lt (instanceType_aws lt sz) = instanceType_aws lt sz
   \<and> vmSize_azure lt (vmSize_azure lt sz) = vmSize_azure lt sz
   \<and> machineType_gcp lt (machineType_gcp lt sz) = machineType_gcp lt sz
   \<and> (sz \<noteq> '''' \<and> ToLower lt sz \<notin> {''small'', ''medium'', ''large''} \<longrightarrow>
        instanceType_aws lt sz = sz \<and> vmSize_azure lt sz = sz \<and> machineType_gcp lt sz = sz)
   \<and> (is_ascii name \<longrightarrow>
        ToLower lt (ToLower lt name) = ToLower lt name
        \<and> take 24 (take 24 name) = take 24 name
        \<and> acctName lt (acctName lt name) = acctName lt name)"
  using size_passes_through [of sz lt]
  by (simp add: instanceType_aws_twice vmSize_azure_twice machineType_gcp_twice
      ToLower_twice acctName_twice)

theorem C6_normalization_twice_witness:
  "instanceType_aws latin1_table (instanceType_aws latin1_table ''Small'') = ''t3.small''
   \<and> vmSize_azure latin1_table ''Standard_D2s_v3'' = ''Standard_D2s_v3''
   \<and> acctName latin1_table (acctName latin1_table ''My-Bucket-Name-Of-30-Characters'')
       = ''my-bucket-name-of-30-cha''"
proof -
  have sizes: "instanceType_aws latin1_table ''Small'' = ''t3.small''"
    "ToLower latin1_table ''Standard_D2s_v3'' = ''standard_d2s_v3''"
    by (simp_all add: instanceType_aws_def ToLower_def ToLower_bytes_def char_of_def bit_0)
  have name: "is_ascii ''My-Bucket-Name-Of-30-Characters''"
    "acctName latin1_table ''My-Bucket-Name-Of-30-Characters'' = ''my-bucket-name-of-30-cha''"
    by (simp_all add: is_ascii_def acctName_def ToLower_def ToLower_bytes_def char_of_def bit_0)
  show ?thesis
    using C6_normalization_twice [of latin1_table "''Small''" "''My-Bucket-Name-Of-30-Characters''"]
      C6_normalization_twice [of latin1_table "''Standard_D2s_v3''" "''''"]
    by (simp add: sizes name)
qed

text \<open>
  C6 as stated fails for a name that is not ASCII: cutting the lower-cased name at 24
  bytes can cut a rune, and lower-casing the cut name replaces the stray byte.
\<close>

theorem C6_normalization_counterexample:
  "acctName latin1_table (acctName latin1_table long_name) \<noteq> acctName latin1_table long_name"
  using acctName_cut_rune by (simp add: acctName_long_name)
section \<open>The methods as the framework calls them\<close>

text \<open>
  No struct of the source has a field for every attribute of its schema: decoding fails
  in every method that decodes, and the method returns with the one diagnostic.
\<close>

lemma decode_attribute_without_field:
  "a \<in> set sch \<Longrightarrow> a \<notin> set fs \<Longrightarrow>
   decode sch fs out body bk s =
     out bk (s\<lparr>diags := diags s
       @ [(''Value Conversion Error'', ''mismatch between struct and object'')]\<rparr>)"
  by (auto simp: decode_def Get_decodes_def add_error_def)

lemma NetworkResource_stops:
  "NetworkResource_Create r plan bk =
     (new_ctx r None)\<lparr>diags :=
       [(''Value Conversion Error'', ''mismatch between struct and object'')]\<rparr>"
  "NetworkResource_Read r st bk =
     (new_ctx r (Some st))\<lparr>diags :=
       [(''Value Conversion Error'', ''mismatch between struct and object'')]\<rparr>"
  "NetworkResource_Delete r st bk =
     (new_ctx r (Some st))\<lparr>diags :=
       [(''Value Conversion Error'', ''mismatch between struct and object'')]\<rparr>"
  by (simp_all add: NetworkResource_Create_def NetworkResource_Read_def
      NetworkResource_Delete_def NetworkResource_Schema_def
      decode_attribute_without_field [of "(''name'', StringT)"]
      decode_attribute_without_field [of "(''id'', StringT)"] ret_def new_ctx_def)

lemma InstanceResource_stops:
  "InstanceResource_Create lt r plan bk =
     (new_ctx r None)\<lparr>diags :=
       [(''Value Conversion Error'', ''mismatch between struct and object'')]\<rparr>"
  "InstanceResource_Read r st bk =
     (new_ctx r (Some st))\<lparr>diags :=
       [(''Value Conversion Error'', ''mismatch between struct and object'')]\<rparr>"
  "InstanceResource_Delete r st bk =
     (new_ctx r (Some st))\<lparr>diags :=
       [(''Value Conversion Error'', ''mismatch between struct and object'')]\<rparr>"
  by (simp_all add: InstanceResource_Create_def InstanceResource_Read_def
      InstanceResource_Delete_def InstanceResource_Schema_def
      decode_attribute_without_field [of "(''name'', StringT)"]
      decode_attribute_without_field [of "(''id'', StringT)"] ret_def new_ctx_def)

lemma BucketResource_stops:
  "BucketResource_Create lt r plan bk =
     (new_ctx r None)\<lparr>diags :=
       [(''Value Conversion Error'', ''mismatch between struct and object'')]\<rparr>"
  "BucketResource_Read r st bk =
     (new_ctx r (Some st))\<lparr>diags :=
       [(''Value Conversion Error'', ''mismatch between struct and object'')]\<rparr>"
  "BucketResource_Update r st plan bk =
     (new_ctx r (Some st))\<lparr>diags :=
       [(''Value Conversion Error'', ''mismatch between struct and object'')]\<rparr>"
  "BucketResource_Delete r st bk =
     (new_ctx r (Some st))\<lparr>diags :=
       [(''Value Conversion Error'', ''mismatch between struct and object'')]\<rparr>"
  by (simp_all add: BucketResource_Create_def BucketResource_Read_def BucketResource_Update_def
      BucketResource_Delete_def BucketResource_Schema_def
      decode_attribute_without_field [of "(''name'', StringT)"]
      decode_attribute_without_field [of "(''id'', StringT)"] ret_def new_ctx_def)




section \<open>Create\<close>









section \<open>The claims about Create, Read, Update and Delete\<close>





lemma network_read_missing_run:
  "network_read all_clients net_record nothing_there (new_ctx all_clients (Some net_record)) =
    \<lparr>trace = [(Call EC2 ''DescribeVpcs'' [Str ''vpc-1''], Err ''NotFound'')],
     diags = [], state = None, azureLoc = ''westeurope'', panicked = False\<rparr>"
  by (simp add: network_read_def all_clients_def net_record_def
      nothing_there_def run_defs attr_defs reply_defs)

lemma bucket_read_missing_run:
  "bucket_read all_clients bucket_record nothing_there (new_ctx all_clients (Some bucket_record)) =
    \<lparr>trace = [(Call S3 ''HeadBucket'' [Str ''my-bucket-1''], Err ''NotFound'')],
     diags = [(''aws read'', ''NotFound'')],
     state = None, azureLoc = ''westeurope'', panicked = False\<rparr>"
  by (simp add: bucket_read_def all_clients_def bucket_record_def
      nothing_there_def run_defs attr_defs reply_defs)

text \<open>
  C2 fails for the \<^verbatim>\<open>Read\<close> of a bucket that was deleted out-of-band.  As the
  framework calls it, \<^verbatim>\<open>BucketResource.Read\<close> cannot decode the record: it makes no
  lookup, keeps the record and reports the conversion error.  The switch that follows
  the decoding discards the record of the missing bucket, but reports the error
  \<^verbatim>\<open>aws read\<close> with it, where the switch of \<^verbatim>\<open>NetworkResource.Read\<close> discards the
  record of a missing network without a diagnostic.
\<close>

theorem C2_bucket_read_missing:
  "trace (BucketResource_Read all_clients bucket_record nothing_there) = []
   \<and> map fst (diags (BucketResource_Read all_clients bucket_record nothing_there))
       = [''Value Conversion Error'']
   \<and> state (BucketResource_Read all_clients bucket_record nothing_there) = Some bucket_record
   \<and> bucket_read all_clients bucket_record nothing_there
       (new_ctx all_clients (Some bucket_record)) =
     \<lparr>trace = [(Call S3 ''HeadBucket'' [Str ''my-bucket-1''], Err ''NotFound'')],
      diags = [(''aws read'', ''NotFound'')],
      state = None, azureLoc = ''westeurope'', panicked = False\<rparr>
   \<and> network_read all_clients net_record nothing_there
       (new_ctx all_clients (Some net_record)) =
     \<lparr>trace = [(Call EC2 ''DescribeVpcs'' [Str ''vpc-1''], Err ''NotFound'')],
      diags = [], state = None, azureLoc = ''westeurope'', panicked = False\<rparr>"
  by (simp add: BucketResource_stops network_read_missing_run bucket_read_missing_run)
    (simp add: new_ctx_def all_clients_def)

theorem C2_bucket_read_missing_witness:
  "diags (BucketResource_Read all_clients bucket_record nothing_there) \<noteq> []
   \<and> state (BucketResource_Read all_clients bucket_record nothing_there) \<noteq> None
   \<and> map fst (diags (bucket_read all_clients bucket_record nothing_there
        (new_ctx all_clients (Some bucket_record)))) = [''aws read'']
   \<and> diags (network_read all_clients net_record nothing_there
        (new_ctx all_clients (Some net_record))) = []"
  using C2_bucket_read_missing by auto

lemma unsupported_switch:
  assumes "ValueString a ''type'' \<notin> set [''aws'', ''azure'', ''gcp'']"
  shows "trace (network_create r a bk s) = trace s"
    and "trace (network_read r a bk s) = trace s"
    and "trace (network_delete r a bk s) = trace s"
    and "trace (instance_create lt r a bk s) = trace s"
    and "trace (instance_read r a bk s) = trace s"
    and "trace (instance_delete r a bk s) = trace s"
    and "trace (bucket_create lt r a bk s) = trace s"
    and "trace (bucket_read r a bk s) = trace s"
    and "trace (bucket_update r a bk s) = trace s"
    and "trace (bucket_delete r a bk s) = trace s"
    and "diags (network_create r a bk s)
           = diags s @ [(''unsupported cloud'', ''only aws and azure implemented'')]"
    and "diags (instance_create lt r a bk s)
           = diags s @ [(''unsupported cloud'', ''only aws and azure implemented'')]"
    and "diags (bucket_create lt r a bk s)
           = diags s @ [(''unsupported cloud'', ''only aws implemented'')]"
  using assms
  by (simp_all add: network_create_def network_read_def network_delete_def instance_create_def
      instance_read_def instance_delete_def bucket_create_def bucket_read_def bucket_update_def
      bucket_delete_def Let_def add_error_def ret_def)

text \<open>
  C3, as amended: for a backend tag other than \<^verbatim>\<open>aws\<close>, \<^verbatim>\<open>azure\<close> and
  \<^verbatim>\<open>gcp\<close>, no lifecycle call of a network, an instance or a bucket makes a backend
  call, neither as the framework calls it nor in the switch that follows the decoding.
  In the switch of \<^verbatim>\<open>Create\<close> such a tag reaches the default branch, which adds
  the one error \<^verbatim>\<open>unsupported cloud\<close>; the \<^verbatim>\<open>Update\<close> of a network or an
  instance surfaces no error.
\<close>

theorem C3_unsupported_backend:
  assumes "ValueString a ''type'' \<notin> set [''aws'', ''azure'', ''gcp'']"
  shows "trace (NetworkResource_Create r a bk) = []
         \<and> trace (NetworkResource_Read r a bk) = []
         \<and> trace (NetworkResource_Update r st a bk) = []
         \<and> trace (NetworkResource_Delete r a bk) = []
         \<and> trace (InstanceResource_Create lt r a bk) = []
         \<and> trace (InstanceResource_Read r a bk) = []
         \<and> trace (InstanceResource_Update r st a bk) = []
         \<and> trace (InstanceResource_Delete r a bk) = []
         \<and> trace (BucketResource_Create lt r a bk) = []
         \<and> trace (BucketResource_Read r a bk) = []
         \<and> trace (BucketResource_Update r st a bk) = []
         \<and> trace (BucketResource_Delete r a bk) = []
         \<and> diags (NetworkResource_Update r st a bk) = []
         \<and> diags (InstanceResource_Update r st a bk) = []
         \<and> trace (network_create r a bk s) = trace s
         \<and> trace (network_read r a bk s) = trace s
         \<and> trace (network_delete r a bk s) = trace s
         \<and> trace (instance_create lt r a bk s) = trace s
         \<and> trace (instance_read r a bk s) = trace s
         \<and> trace (instance_delete r a bk s) = trace s
         \<and> trace (bucket_create lt r a bk s) = trace s
         \<and> trace (bucket_read r a bk s) = trace s
         \<and> trace (bucket_update r a bk s) = trace s
         \<and> trace (bucket_delete r a bk s) = trace s
         \<and> diags (network_create r a bk s)
             = diags s @ [(''unsupported cloud'', ''only aws and azure implemented'')]
         \<and> diags (instance_create lt r a bk s)
             = diags s @ [(''unsupported cloud'', ''only aws and azure implemented'')]
         \<and> diags (bucket_create lt r a bk s)
             = diags s @ [(''unsupported cloud'', ''only aws implemented'')]"
  by (simp add: unsupported_switch [OF assms] NetworkResource_stops InstanceResource_stops
      BucketResource_stops NetworkResource_Update_def InstanceResource_Update_def ret_def
      new_ctx_def)

theorem C3_unsupported_backend_witness:
  "ValueString unknown_plan ''type'' = ''openstack''
   \<and> trace (InstanceResource_Create latin1_table all_clients unknown_plan all_ok) = []
   \<and> trace (instance_create latin1_table all_clients unknown_plan all_ok
        (new_ctx all_clients None)) = []
   \<and> diags (instance_create latin1_table all_clients unknown_plan all_ok
        (new_ctx all_clients None)) = [(''unsupported cloud'', ''only aws and azure implemented'')]
   \<and> diags (InstanceResource_Update all_clients vm_record unknown_plan all_ok) = []"
proof -
  have tag: "ValueString unknown_plan ''type'' = ''openstack''"
    by (simp add: unknown_plan_def ValueString_def)
  then have "ValueString unknown_plan ''type'' \<notin> set [''aws'', ''azure'', ''gcp'']"
    by simp
  from C3_unsupported_backend [OF this, of all_clients all_ok vm_record latin1_table
      "new_ctx all_clients None"] tag
  show ?thesis
    by (simp add: new_ctx_def)
qed

text \<open>
  C3 as stated fails: the \<^verbatim>\<open>Update\<close> of a network to a plan with an unknown backend
  tag returns without an error.
\<close>

theorem C3_unsupported_counterexample:
  "NetworkResource_Update all_clients net_record unknown_plan all_ok =
     \<lparr>trace = [], diags = [], state = Some net_record, azureLoc = ''westeurope'',
      panicked = False\<rparr>"
  by (simp add: NetworkResource_Update_def ret_def new_ctx_def all_clients_def)

lemma bucket_update_calls: "only_calls (versioning_change plan) (bucket_update r plan)"
  unfolding bucket_update_def Let_def
  by (intro only_calls_rules; simp add: versioning_change_def)

lemma bucket_update_state: "state (bucket_update r plan bk (new_ctx r (Some st))) = Some st"
proof -
  have "holds (\<lambda>s. state s = Some st) (bucket_update r plan bk (new_ctx r (Some st)))"
    unfolding bucket_update_def Let_def
    by (intro holds_rules; simp add: new_ctx_def)
  then show ?thesis
    by (simp add: holds_def)
qed

lemma bucket_update_run:
  "bucket_update all_clients bucket_plan all_ok (new_ctx all_clients (Some bucket_record)) =
    \<lparr>trace = [(Call S3 ''PutBucketVersioning'' [Str ''my-bucket-1'', Str ''Enabled''],
               Ok [Str ''id-1''])],
     diags = [], state = Some bucket_record, azureLoc = ''westeurope'', panicked = False\<rparr>"
  by (simp add: bucket_update_def all_clients_def bucket_plan_def
      all_ok_def run_defs attr_defs reply_defs)

text \<open>
  C4, as amended: the \<^verbatim>\<open>Update\<close> of an instance, a network, a cluster or a function
  has an empty body: it makes no backend call, reports nothing and leaves the stored
  record as it is.  The \<^verbatim>\<open>Update\<close> of a bucket makes no call other than the change of
  the versioning setting of the bucket that the plan names, and leaves the stored record as
  it is, in the switch that follows the decoding and as the framework calls it.  No
  \<^verbatim>\<open>Update\<close> of these deletes the stored resource or creates one from the new spec.
\<close>

theorem C4_update_in_place:
  "InstanceResource_Update r st plan bk = new_ctx r (Some st)
   \<and> NetworkResource_Update r st plan bk = new_ctx r (Some st)
   \<and> ClusterResource_Update r st plan bk = new_ctx r (Some st)
   \<and> FunctionResource_Update r st plan bk = new_ctx r (Some st)
   \<and> list_all (versioning_change plan)
        (map fst (trace (bucket_update r plan bk (new_ctx r (Some st)))))
   \<and> state (bucket_update r plan bk (new_ctx r (Some st))) = Some st
   \<and> list_all (versioning_change plan) (map fst (trace (BucketResource_Update r st plan bk)))
   \<and> state (BucketResource_Update r st plan bk) = Some st"
  using only_calls_run [OF bucket_update_calls, of plan r bk r "Some st"]
  by (simp add: InstanceResource_Update_def NetworkResource_Update_def
      ClusterResource_Update_def FunctionResource_Update_def ret_def bucket_update_state
      BucketResource_stops)
    (simp add: new_ctx_def)

theorem C4_update_in_place_witness:
  "map fst (trace (bucket_update all_clients bucket_plan all_ok
      (new_ctx all_clients (Some bucket_record))))
     = [Call S3 ''PutBucketVersioning'' [Str ''my-bucket-1'', Str ''Enabled'']]
   \<and> versioning_change bucket_plan
        (Call S3 ''PutBucketVersioning'' [Str ''my-bucket-1'', Str ''Enabled''])
   \<and> InstanceResource_Update all_clients vm_record vm_plan all_ok
       = new_ctx all_clients (Some vm_record)"
  using C4_update_in_place [of all_clients vm_record vm_plan all_ok]
    C4_update_in_place [of all_clients bucket_record bucket_plan all_ok]
  by (simp add: bucket_update_run)

text \<open>
  C4 as stated fails: the \<^verbatim>\<open>Update\<close> of an instance to a new plan makes no call, so
  it neither deletes the stored instance nor creates one from the plan, and the record
  stays as it was.
\<close>

theorem C4_update_counterexample:
  "InstanceResource_Update all_clients vm_record vm_plan all_ok =
     \<lparr>trace = [], diags = [], state = Some vm_record, azureLoc = ''westeurope'',
      panicked = False\<rparr>"
  by (simp add: InstanceResource_Update_def ret_def new_ctx_def all_clients_def)

lemma instance_delete_calls:
  "only_calls (\<lambda>c. is_destroy c \<and> in_group ''abstract-rg'' c) (instance_delete r st)"
  unfolding instance_delete_def Let_def
  by (intro only_calls_rules; simp add: in_group_def is_destroy_def)

lemma instance_delete_reports:
  "failed is_destroy (instance_delete r st bk (new_ctx r (Some st))) \<longrightarrow>
   diags (instance_delete r st bk (new_ctx r (Some st))) \<noteq> []"
proof -
  have "holds (\<lambda>s. failed is_destroy s \<longrightarrow> diags s \<noteq> [])
          (instance_delete r st bk (new_ctx r (Some st)))"
    unfolding instance_delete_def Let_def
    by (intro holds_rules; auto simp: new_ctx_def failed_def poll_entries_def)
  then show ?thesis
    by (simp add: holds_def)
qed

lemma bucket_delete_reports:
  "failed is_destroy (bucket_delete r st bk (new_ctx r (Some st))) \<longrightarrow>
   diags (bucket_delete r st bk (new_ctx r (Some st))) \<noteq> []"
proof -
  have "holds (\<lambda>s. failed is_destroy s \<longrightarrow> diags s \<noteq> [])
          (bucket_delete r st bk (new_ctx r (Some st)))"
    unfolding bucket_delete_def blob_service_def Let_def
    by (intro holds_rules; simp add: new_ctx_def failed_def is_destroy_def)
  then show ?thesis
    by (simp add: holds_def)
qed

lemma instance_delete_missing_run:
  "instance_delete all_clients vm_record nothing_there (new_ctx all_clients (Some vm_record)) =
    \<lparr>trace = [(Call EC2 ''TerminateInstances'' [Str ''i-1''], Err ''NotFound'')],
     diags = [(''aws terminate'', ''NotFound'')],
     state = Some vm_record, azureLoc = ''westeurope'', panicked = False\<rparr>"
  by (simp add: instance_delete_def all_clients_def vm_record_def
      nothing_there_def run_defs attr_defs reply_defs)

text \<open>
  C5, as amended: the \<^verbatim>\<open>Delete\<close> of an instance makes no existence check: every call
  it makes is a destroy call.  When a destroy call made by the \<^verbatim>\<open>Delete\<close> of an
  instance or of a bucket returns an error, whatever the error, \<^verbatim>\<open>Delete\<close> reports an
  error diagnostic and not success.  Both hold in the switch that follows the decoding and
  as the framework calls the methods.
\<close>

theorem C5_delete_reports_errors:
  "list_all is_destroy (map fst (trace (instance_delete r st bk (new_ctx r (Some st)))))
   \<and> (failed is_destroy (instance_delete r st bk (new_ctx r (Some st))) \<longrightarrow>
        diags (instance_delete r st bk (new_ctx r (Some st))) \<noteq> [])
   \<and> (failed is_destroy (bucket_delete r st bk (new_ctx r (Some st))) \<longrightarrow>
        diags (bucket_delete r st bk (new_ctx r (Some st))) \<noteq> [])
   \<and> list_all is_destroy (map fst (trace (InstanceResource_Delete r st bk)))
   \<and> (failed is_destroy (InstanceResource_Delete r st bk) \<longrightarrow>
        diags (InstanceResource_Delete r st bk) \<noteq> [])
   \<and> (failed is_destroy (BucketResource_Delete r st bk) \<longrightarrow>
        diags (BucketResource_Delete r st bk) \<noteq> [])"
  using list_all_weaken [OF only_calls_run [OF instance_delete_calls, of r st bk r "Some st"],
      of is_destroy]
    instance_delete_reports [of r st bk] bucket_delete_reports [of r st bk]
  by (simp add: InstanceResource_stops BucketResource_stops new_ctx_def)

theorem C5_delete_reports_errors_witness:
  "failed is_destroy
     (instance_delete all_clients vm_record nothing_there (new_ctx all_clients (Some vm_record)))
   \<and> diags (instance_delete all_clients vm_record nothing_there
        (new_ctx all_clients (Some vm_record))) \<noteq> []"
proof -
  have "failed is_destroy
      (instance_delete all_clients vm_record nothing_there (new_ctx all_clients (Some vm_record)))"
    by (simp add: instance_delete_missing_run failed_def is_destroy_def is_err_def)
  then show ?thesis
    using C5_delete_reports_errors [of all_clients vm_record nothing_there]
    by simp
qed

text \<open>
  C5 as stated fails.  For an instance that is gone from the backend, so that the
  destroy call returns \<^verbatim>\<open>NotFound\<close>, the switch of \<^verbatim>\<open>InstanceResource.Delete\<close>
  makes the destroy call without an existence check and reports its error; as the
  framework calls it, \<^verbatim>\<open>Delete\<close> reports the conversion error.  Neither returns
  success.
\<close>

theorem C5_delete_counterexample:
  "instance_delete all_clients vm_record nothing_there (new_ctx all_clients (Some vm_record)) =
     \<lparr>trace = [(Call EC2 ''TerminateInstances'' [Str ''i-1''], Err ''NotFound'')],
      diags = [(''aws terminate'', ''NotFound'')],
      state = Some vm_record, azureLoc = ''westeurope'', panicked = False\<rparr>
   \<and> trace (InstanceResource_Delete all_clients vm_record nothing_there) = []
   \<and> map fst (diags (InstanceResource_Delete all_clients vm_record nothing_there))
       = [''Value Conversion Error'']"
  by (simp add: instance_delete_missing_run InstanceResource_stops)
    (simp add: new_ctx_def all_clients_def)
section \<open>The Azure chain of InstanceResource.Create\<close>

lemma holds_begin_poll_replies:
  "(\<And>h c. G c (bk h c)) \<Longrightarrow>
   (\<And>b. G c b \<Longrightarrow> \<not> is_err b) \<Longrightarrow>
   (\<And>b rep. G c b \<Longrightarrow> G (PollUntilDone c) rep \<Longrightarrow>
      holds Q (k rep bk (s\<lparr>trace := trace s @ [(c, b), (PollUntilDone c, rep)]\<rparr>))) \<Longrightarrow>
   holds Q (begin_poll c k bk s)"
  by (simp add: begin_poll_def invoke_def)

lemma vmSize_azure_small: "vmSize_azure lt ''small'' = ''Standard_B1s''"
  by (simp add: vmSize_azure_def ToLower_literals)

lemma fresh_azure_replies: "first_instance_reply c (fresh_azure h c)"
  by (simp add: first_instance_reply_def fresh_azure_def reply_defs split: call.split)

text \<open>
  The switch of \<^verbatim>\<open>InstanceResource.Create\<close>, entered with a decoded plan of type
  \<^verbatim>\<open>azure\<close> and size \<^verbatim>\<open>small\<close> on a subscription where the subnet does not exist
  yet and every call succeeds, provisions six sub-resources in the order resource group,
  virtual network, subnet, public address, network interface, virtual machine, and
  requests the virtual machine with the size \<^verbatim>\<open>Standard_B1s\<close>.
\<close>

lemma instance_create_azure_chain:
  assumes "set [AzureRG, AzureVNet, AzureSubnets, AzurePIP, AzureNIC, AzureVM] \<subseteq> set (clients r)"
    and "ValueString plan ''type'' = ''azure''"
    and "ValueString plan ''size'' = ''small''"
    and "\<And>h c. first_instance_reply c (bk h c)"
  shows "map kind_of (filter is_apply
        (map fst (trace (instance_create lt r plan bk (new_ctx r None))))) =
      [(AzureRG, ''CreateOrUpdate''), (AzureVNet, ''BeginCreateOrUpdate''),
       (AzureSubnets, ''BeginCreateOrUpdate''), (AzurePIP, ''BeginCreateOrUpdate''),
       (AzureNIC, ''BeginCreateOrUpdate''), (AzureVM, ''BeginCreateOrUpdate'')]
    \<and> (\<exists>loc nic. last (filter is_apply
          (map fst (trace (instance_create lt r plan bk (new_ctx r None))))) =
          Call AzureVM ''BeginCreateOrUpdate''
            [Str ''abstract-rg'', Str (ValueString plan ''name''), Str loc,
             Str ''Standard_B1s'', Str nic])
    \<and> diags (instance_create lt r plan bk (new_ctx r None)) = []"
proof -
  let ?Q = "\<lambda>s. map kind_of (filter is_apply (map fst (trace s))) =
      [(AzureRG, ''CreateOrUpdate''), (AzureVNet, ''BeginCreateOrUpdate''),
       (AzureSubnets, ''BeginCreateOrUpdate''), (AzurePIP, ''BeginCreateOrUpdate''),
       (AzureNIC, ''BeginCreateOrUpdate''), (AzureVM, ''BeginCreateOrUpdate'')]
    \<and> (\<exists>loc nic. last (filter is_apply (map fst (trace s))) =
          Call AzureVM ''BeginCreateOrUpdate''
            [Str ''abstract-rg'', Str (ValueString plan ''name''), Str loc,
             Str ''Standard_B1s'', Str nic])
    \<and> diags s = []"
  note replies = assms(4)
  have cl: "has r AzureRG" "has r AzureVNet" "has r AzureSubnets" "has r AzurePIP"
    "has r AzureNIC" "has r AzureVM"
    using assms(1) by (simp_all add: has_def)
  have "holds ?Q (instance_create_azure lt r plan bk (new_ctx r None))"
    unfolding instance_create_azure_def Let_def assms(3) vmSize_azure_small
    by (intro holds_invoke_replies [where G = first_instance_reply, OF replies]
        holds_begin_poll_replies [where G = first_instance_reply, OF replies]
        holds_ret holds_panic holds_if holds_option holds_add_error holds_state_set
        holds_ensure_loc holds_with_loc;
        simp add: cl new_ctx_def first_instance_reply_def is_apply_def)
  then show ?thesis
    using assms(2) by (simp add: holds_def instance_create_def)
qed

lemma fresh_azure_chain:
  "map kind_of (filter is_apply
      (map fst (trace (instance_create latin1_table all_clients vm_plan fresh_azure
         (new_ctx all_clients None))))) =
      [(AzureRG, ''CreateOrUpdate''), (AzureVNet, ''BeginCreateOrUpdate''),
       (AzureSubnets, ''BeginCreateOrUpdate''), (AzurePIP, ''BeginCreateOrUpdate''),
       (AzureNIC, ''BeginCreateOrUpdate''), (AzureVM, ''BeginCreateOrUpdate'')]"
proof -
  have "set [AzureRG, AzureVNet, AzureSubnets, AzurePIP, AzureNIC, AzureVM]
      \<subseteq> set (clients all_clients)"
    by (simp add: all_clients_def)
  moreover have "ValueString vm_plan ''type'' = ''azure''"
    and "ValueString vm_plan ''size'' = ''small''"
    by (simp_all add: vm_plan_def ValueString_def)
  ultimately show ?thesis
    using instance_create_azure_chain [of all_clients vm_plan fresh_azure latin1_table,
        OF _ _ _ fresh_azure_replies]
    by simp
qed

text \<open>
  C7 fails as the framework calls \<^verbatim>\<open>InstanceResource.Create\<close>: the struct it decodes
  the plan into has no field for the attribute \<^verbatim>\<open>id\<close> of the schema, so for the plan
  of a small Azure instance the method returns with the conversion error and runs none
  of the six steps of its chain.
\<close>

theorem C7_create_runs_no_step:
  "trace (InstanceResource_Create latin1_table all_clients vm_plan fresh_azure) = []
   \<and> map fst (diags (InstanceResource_Create latin1_table all_clients vm_plan fresh_azure))
       = [''Value Conversion Error'']
   \<and> state (InstanceResource_Create latin1_table all_clients vm_plan fresh_azure) = None"
  by (simp add: InstanceResource_stops new_ctx_def)

section \<open>The wait for a GCP operation\<close>

lemma polls_shift:
  "polls bk get h (Suc n) = polls bk get (h @ [(get, bk h get), (Sleep 5, Ok [])]) n"
  by (induction n) simp_all

lemma wait_operation_returns:
  "terminal bk get done (polls bk get (trace s) k) \<Longrightarrow>
   (\<And>i. i < k \<Longrightarrow> \<not> terminal bk get done (polls bk get (trace s) i)) \<Longrightarrow>
   wait_operation bk get done s =
     Some (bk (polls bk get (trace s) k) get,
           s\<lparr>trace := polls bk get (trace s) k @ [(get, bk (polls bk get (trace s) k) get)]\<rparr>)"
proof (induction k arbitrary: s)
  case 0
  then show ?case
    by (subst wait_operation.simps) (simp add: terminal_def)
next
  case (Suc k)
  let ?s = "s\<lparr>trace := trace s @ [(get, bk (trace s) get), (Sleep 5, Ok [])]\<rparr>"
  have first: "\<not> terminal bk get done (trace s)"
    using Suc.prems(2) [of 0] by simp
  have now: "terminal bk get done (polls bk get (trace ?s) k)"
    using Suc.prems(1) by (simp only: polls_shift) simp
  have before: "\<not> terminal bk get done (polls bk get (trace ?s) i)" if "i < k" for i
    using Suc.prems(2) [of "Suc i"] that by (simp only: polls_shift) simp
  have "wait_operation bk get done s = wait_operation bk get done ?s"
    using first by (subst wait_operation.simps) (simp add: terminal_def)
  also have "\<dots> = Some (bk (polls bk get (trace ?s) k) get,
      ?s\<lparr>trace := polls bk get (trace ?s) k @ [(get, bk (polls bk get (trace ?s) k) get)]\<rparr>)"
    using Suc.IH [of ?s, OF now before] by simp
  also have "\<dots> = Some (bk (polls bk get (trace s) (Suc k)) get,
      s\<lparr>trace := polls bk get (trace s) (Suc k)
            @ [(get, bk (polls bk get (trace s) (Suc k)) get)]\<rparr>)"
    by (simp only: polls_shift) simp
  finally show ?case .
qed

lemma wait_operation_some:
  assumes "wait_operation bk get done s = Some y"
  shows "\<exists>k. terminal bk get done (polls bk get (trace s) k)"
proof (rule wait_operation.raw_induct
    [where P = "\<lambda>bk get done s y. \<exists>k. terminal bk get done (polls bk get (trace s) k)",
      OF _ assms])
  fix wait :: "backend \<Rightarrow> call \<Rightarrow> (reply \<Rightarrow> bool) \<Rightarrow> ctx \<Rightarrow> (reply \<times> ctx) option"
    and bk get dn and s :: ctx and y
  let ?s = "s\<lparr>trace := trace s @ [(get, bk (trace s) get), (Sleep 5, Ok [])]\<rparr>"
  assume IH: "\<And>bk get dn s y. wait bk get dn s = Some y \<Longrightarrow>
      \<exists>k. terminal bk get dn (polls bk get (trace s) k)"
    and step: "(if is_err (bk (trace s) get) \<or> dn (bk (trace s) get)
      then Some (bk (trace s) get, s\<lparr>trace := trace s @ [(get, bk (trace s) get)]\<rparr>)
      else wait bk get dn ?s) = Some y"
  show "\<exists>k. terminal bk get dn (polls bk get (trace s) k)"
  proof (cases "terminal bk get dn (trace s)")
    case True
    then have "terminal bk get dn (polls bk get (trace s) 0)" by simp
    then show ?thesis ..
  next
    case False
    with step have "wait bk get dn ?s = Some y"
      by (simp add: terminal_def)
    from IH [OF this] obtain k where "terminal bk get dn (polls bk get (trace ?s) k)" ..
    then have "terminal bk get dn (polls bk get (trace s) (Suc k))"
      by (simp only: polls_shift) simp
    then show ?thesis ..
  qed
qed

lemma wait_operation_never:
  "(\<And>k. \<not> terminal bk get done (polls bk get (trace s) k)) \<Longrightarrow>
   wait_operation bk get done s = None"
  using wait_operation_some [of bk get "done" s] by (cases "wait_operation bk get done s") auto

lemma never_done_terminal: "\<not> terminal never_done get cluster_done h"
  by (simp add: terminal_def never_done_def cluster_done_def reply_defs)

lemma done_at_third_polls:
  "polls done_at_third (Call GKE ''Operations.Get'' [Str ''op-1'']) (trace cluster_started) 2 =
   [(Call GKE ''Clusters.Create''
       [Str ''projects/proj-1/locations/europe-west1'', Str ''k1'', Num 3, Str ''e2-medium''],
     Ok [Str ''op-1'']),
    (Call GKE ''Operations.Get'' [Str ''op-1''], Ok [Str ''RUNNING'']),
    (Sleep 5, Ok []),
    (Call GKE ''Operations.Get'' [Str ''op-1''], Ok [Str ''RUNNING'']),
    (Sleep 5, Ok [])]"
  by (simp add: numeral_2_eq_2 done_at_third_def cluster_started_def)

text \<open>
  The GCP branch of \<^verbatim>\<open>ClusterResource.Create\<close>, entered with the decoded plan of the
  cluster \<open>k1\<close>, starts its wait in \<open>cluster_started\<close>.  It returns after the
  third check when that check finds the operation done, and it does not return when the
  operation stays \<^verbatim>\<open>RUNNING\<close>.
\<close>

lemma cluster_create_waits:
  "cluster_create all_clients cluster_plan done_at_third (new_ctx all_clients None) =
     Some \<lparr>trace =
         [(Call GKE ''Clusters.Create''
             [Str ''projects/proj-1/locations/europe-west1'', Str ''k1'', Num 3,
              Str ''e2-medium''],
           Ok [Str ''op-1'']),
          (Call GKE ''Operations.Get'' [Str ''op-1''], Ok [Str ''RUNNING'']),
          (Sleep 5, Ok []),
          (Call GKE ''Operations.Get'' [Str ''op-1''], Ok [Str ''RUNNING'']),
          (Sleep 5, Ok []),
          (Call GKE ''Operations.Get'' [Str ''op-1''], Ok [Str ''DONE''])],
        diags = [], state = None, azureLoc = ''westeurope'', panicked = False\<rparr>"
  "cluster_create all_clients cluster_plan never_done (new_ctx all_clients None) = None"
proof -
  let ?get = "Call GKE ''Operations.Get'' [Str ''op-1'']"
  let ?create = "Call GKE ''Clusters.Create''
    [Str ''projects/proj-1/locations/europe-west1'', Str ''k1'', Num 3, Str ''e2-medium'']"
  have create: "done_at_third h ?create = Ok [Str ''op-1'']" for h
    by (simp add: done_at_third_def)
  have op: "str0 (Ok [Str ''op-1'']) = ''op-1''" "\<not> is_err (Ok [Str ''op-1''])"
    "\<not> is_err (Ok [Str ''DONE''])" "str0 (Ok [Str ''RUNNING'']) = ''RUNNING''"
    "\<not> is_err (Ok [Str ''RUNNING''])"
    by (simp_all add: reply_defs)
  have third: "terminal done_at_third ?get cluster_done
      (polls done_at_third ?get (trace cluster_started) 2)"
    by (simp add: done_at_third_polls)
      (simp add: terminal_def done_at_third_def cluster_done_def reply_defs)
  have earlier: "\<not> terminal done_at_third ?get cluster_done
      (polls done_at_third ?get (trace cluster_started) i)" if "i < 2" for i
    using that
    by (auto simp: less_Suc_eq numeral_2_eq_2 terminal_def done_at_third_def cluster_done_def
        cluster_started_def reply_defs)
  have w: "wait_operation done_at_third ?get cluster_done cluster_started =
      Some (Ok [Str ''DONE''],
        cluster_started\<lparr>trace := polls done_at_third ?get (trace cluster_started) 2
          @ [(?get, Ok [Str ''DONE''])]\<rparr>)"
    using wait_operation_returns [of done_at_third ?get cluster_done cluster_started 2,
        OF third earlier]
    by (simp add: done_at_third_polls) (simp add: done_at_third_def)
  show "cluster_create all_clients cluster_plan done_at_third (new_ctx all_clients None) =
     Some \<lparr>trace =
         [(Call GKE ''Clusters.Create''
             [Str ''projects/proj-1/locations/europe-west1'', Str ''k1'', Num 3,
              Str ''e2-medium''],
           Ok [Str ''op-1'']),
          (Call GKE ''Operations.Get'' [Str ''op-1''], Ok [Str ''RUNNING'']),
          (Sleep 5, Ok []),
          (Call GKE ''Operations.Get'' [Str ''op-1''], Ok [Str ''RUNNING'']),
          (Sleep 5, Ok []),
          (Call GKE ''Operations.Get'' [Str ''op-1''], Ok [Str ''DONE''])],
        diags = [], state = None, azureLoc = ''westeurope'', panicked = False\<rparr>"
    by (simp add: cluster_create_def cluster_create_gcp_def cluster_plan_def
        all_clients_def await_def invoke_def add_error_def state_set_def ret_some_def
        new_ctx_def Let_def ValueString_def ValueInt64_def has_def create op
        done_at_third_polls [unfolded cluster_started_def, simplified]
        w [unfolded cluster_started_def, simplified,
           simplified done_at_third_polls [unfolded cluster_started_def, simplified]])
  show "cluster_create all_clients cluster_plan never_done (new_ctx all_clients None) = None"
    by (simp add: cluster_create_def cluster_create_gcp_def cluster_plan_def
        all_clients_def await_def wait_operation_never [OF never_done_terminal] invoke_def
        new_ctx_def Let_def attr_defs never_done_def is_err_def)
qed



section \<open>The record after Create\<close>


text \<open>No \<^verbatim>\<open>Create\<close> of a network or an instance leaves a record in the response.\<close>

lemma create_stores_no_record:
  "state (network_create r plan bk (new_ctx r None)) = None"
  "state (instance_create lt r plan bk (new_ctx r None)) = None"
  "state (NetworkResource_Create r plan bk) = None"
  "state (InstanceResource_Create lt r plan bk) = None"
proof -
  have "holds (\<lambda>s. state s = None) (network_create r plan bk (new_ctx r None))"
    unfolding network_create_def network_create_aws_def network_create_azure_def
      network_create_gcp_def Let_def
    by (intro holds_rules; simp add: new_ctx_def)
  then show "state (network_create r plan bk (new_ctx r None)) = None"
    by (simp add: holds_def)
  have "holds (\<lambda>s. state s = None) (instance_create lt r plan bk (new_ctx r None))"
    unfolding instance_create_def instance_create_aws_def instance_create_azure_def
      instance_create_gcp_def Let_def
    by (intro holds_rules; simp add: new_ctx_def)
  then show "state (instance_create lt r plan bk (new_ctx r None)) = None"
    by (simp add: holds_def)
  show "state (NetworkResource_Create r plan bk) = None"
    "state (InstanceResource_Create lt r plan bk) = None"
    by (simp_all add: NetworkResource_stops InstanceResource_stops new_ctx_def)
qed


section \<open>The resource group of the Azure calls\<close>












end
